theory Spec2Isabelle
  imports Main "HOL-Library.Sublist"
begin

section \<open>Shared JavaScript idioms\<close>

text \<open>
  The gateway is TypeScript. Three idioms recur in every function below and are written
  out once: the truthiness of a string (only the empty string is falsy), \<open>a || b\<close> on an
  optional string, and \<open>Array.prototype.join\<close>.
\<close>

abbreviation newline :: char where
  "newline \<equiv> CHR 0x0A"

definition truthy :: "string \<Rightarrow> bool" where
  "truthy s = (s \<noteq> [])"

definition truthy_opt :: "string option \<Rightarrow> bool" where
  \<comment> \<open>an absent (undefined or null) value and the empty string are both falsy\<close>
  "truthy_opt v = (case v of None \<Rightarrow> False | Some s \<Rightarrow> truthy s)"

definition or_else :: "string option \<Rightarrow> string \<Rightarrow> string" where
  \<comment> \<open>\<open>v || d\<close>\<close>
  "or_else v d = (case v of None \<Rightarrow> d | Some s \<Rightarrow> if truthy s then s else d)"

fun join :: "string \<Rightarrow> string list \<Rightarrow> string" where
  "join sep [] = []"
| "join sep [x] = x"
| "join sep (x # y # ys) = x @ sep @ join sep (y # ys)"

text \<open>
  JSON values. \<open>JSON.parse\<close> and \<open>JSON.stringify\<close> belong to the platform, not to the
  repository: every function that calls one takes it as a parameter. The decoder returns
  \<open>None\<close> where \<open>JSON.parse\<close> throws a SyntaxError. Numbers are kept as integers; no
  definition below inspects a number.
\<close>

datatype json =
    JNull
  | JBool bool
  | JNumber int
  | JString string
  | JArray "json list"
  | JObject "(string \<times> json) list"

datatype error =
    SyntaxError  \<comment> \<open>thrown by \<open>JSON.parse\<close>\<close>
  | PullFailed string  \<comment> \<open>\<open>Error('Failed to pull model ...')\<close>, by model name\<close>

section \<open>Model router (src/config.ts)\<close>

datatype Provider = Lmstudio | Ollama

text \<open>
  A routing table is a JavaScript object with string keys. It is modelled by the list of
  its own entries in the order \<open>Object.entries\<close> enumerates them (the order of definition,
  for keys that are not integers). The property read \<open>routing[k]\<close> sees more than the own
  entries: where the object has no own entry for \<open>k\<close>, it yields the member of that name which
  every object inherits from \<open>Object.prototype\<close>, if there is one. Such a member is a function
  (for \<open>__proto__\<close>, an object): it is truthy and it is not a string.
\<close>

type_synonym ModelRouting = "(string \<times> string) list"

record ProviderConfig =
  baseUrl :: string
  model :: string
  apiKey :: "string option"
  modelRouting :: "ModelRouting option"

record Config =
  provider :: Provider
  port :: nat
  lmstudio :: ProviderConfig
  ollama :: ProviderConfig

definition provider_config :: "Config \<Rightarrow> ProviderConfig" where
  \<comment> \<open>\<open>config[config.provider]\<close>\<close>
  "provider_config config = (case provider config of Lmstudio \<Rightarrow> lmstudio config | Ollama \<Rightarrow> ollama config)"

definition routing_table :: "Config \<Rightarrow> ModelRouting" where
  \<comment> \<open>\<open>providerConfig.modelRouting || {}\<close>\<close>
  "routing_table config = (case modelRouting (provider_config config) of None \<Rightarrow> [] | Some r \<Rightarrow> r)"

definition startsWith :: "string \<Rightarrow> string \<Rightarrow> bool" where
  "startsWith s pattern = prefix pattern s"

fun prefix_match :: "ModelRouting \<Rightarrow> string \<Rightarrow> string option" where
  \<comment> \<open>the \<open>for (const [pattern, localModel] of Object.entries(routing))\<close> loop\<close>
  "prefix_match [] requestedModel = None"
| "prefix_match ((pattern, localModel) # rest) requestedModel =
     (if startsWith requestedModel pattern then Some localModel
      else prefix_match rest requestedModel)"

datatype js_value =
    str string
  | inherited_member string  \<comment> \<open>the member of \<open>Object.prototype\<close> of this name\<close>

definition object_prototype_members :: "string list" where
  "object_prototype_members =
     [ ''constructor'', ''__defineGetter__'', ''__defineSetter__'', ''hasOwnProperty'',
       ''__lookupGetter__'', ''__lookupSetter__'', ''isPrototypeOf'', ''propertyIsEnumerable'',
       ''toString'', ''valueOf'', ''__proto__'', ''toLocaleString'' ]"

definition property_read :: "ModelRouting \<Rightarrow> string \<Rightarrow> js_value option" where
  \<comment> \<open>\<open>routing[k]\<close>; \<open>None\<close> is \<open>undefined\<close>\<close>
  "property_read routing k =
     (case map_of routing k of
        Some v \<Rightarrow> Some (str v)
      | None \<Rightarrow> if k \<in> set object_prototype_members then Some (inherited_member k) else None)"

definition truthy_value :: "js_value option \<Rightarrow> bool" where
  "truthy_value v =
     (case v of None \<Rightarrow> False | Some (str s) \<Rightarrow> truthy s | Some (inherited_member m) \<Rightarrow> True)"

text \<open>
  \<open>resolveModel\<close> is declared to return a string. What it returns is a \<open>js_value\<close>: the first
  \<open>return\<close> hands back whatever the property read gave.
\<close>

definition resolveModel :: "Config \<Rightarrow> string \<Rightarrow> js_value" where
  "resolveModel config requestedModel =
     (let providerConfig = provider_config config;
          routing = routing_table config
      in if truthy_value (property_read routing requestedModel)
         then the (property_read routing requestedModel)
         else (case prefix_match routing requestedModel of
                 Some localModel \<Rightarrow> str localModel
               | None \<Rightarrow> str (model providerConfig)))"

definition DEFAULT_CONFIG :: Config where
  "DEFAULT_CONFIG =
     \<lparr> provider = Lmstudio,
       port = 9001,
       lmstudio = \<lparr> baseUrl = ''http://localhost:1234/v1'', model = ''local-model'', apiKey = None,
         modelRouting = Some
           [ (''claude-opus-4'', ''local-model''),
             (''claude-sonnet-4'', ''local-model''),
             (''claude-3-5-sonnet'', ''local-model''),
             (''claude-3-5-haiku'', ''local-model''),
             (''claude-3-opus'', ''local-model''),
             (''claude-3-sonnet'', ''local-model''),
             (''claude-3-haiku'', ''local-model'') ] \<rparr>,
       ollama = \<lparr> baseUrl = ''http://localhost:11434/v1'', model = ''llama3:8b'', apiKey = None,
         modelRouting = Some
           [ (''claude-opus-4'', ''llama3:70b''),
             (''claude-sonnet-4'', ''llama3:8b''),
             (''claude-3-5-sonnet'', ''llama3:8b''),
             (''claude-3-5-haiku'', ''phi3:mini''),
             (''claude-3-opus'', ''llama3:70b''),
             (''claude-3-sonnet'', ''llama3:8b''),
             (''claude-3-haiku'', ''phi3:mini'') ] \<rparr> \<rparr>"

section \<open>Client and backend messages (types.ts)\<close>

datatype ClaudeRole = user | assistant

datatype OpenAIRole = role_system | role_user | role_assistant | role_tool

definition openai_role :: "ClaudeRole \<Rightarrow> OpenAIRole" where
  \<comment> \<open>\<open>role: msg.role\<close>: the same string on both sides\<close>
  "openai_role r = (case r of user \<Rightarrow> role_user | assistant \<Rightarrow> role_assistant)"

datatype ToolResultContent =
    ResultString string
  | ResultBlocks "string list"  \<comment> \<open>\<open>ClaudeTextBlock[]\<close>, each block by its \<open>text\<close>\<close>

record BlockSource =
  source_type :: string
  media_type :: "string option"
  data :: "string option"
  url_or_file_id :: "string option"

datatype ClaudeContentBlock =
    TextBlock string  \<comment> \<open>text\<close>
  | ToolUseBlock string string json  \<comment> \<open>id, name, input\<close>
  | ToolResultBlock string ToolResultContent "bool option"  \<comment> \<open>tool_use_id, content, is_error\<close>
  | ImageBlock BlockSource
  | ThinkingBlock string string  \<comment> \<open>thinking, signature\<close>
  | RedactedThinkingBlock string
  | DocumentBlock BlockSource

datatype MessageContent =
    ContentString string
  | ContentBlocks "ClaudeContentBlock list"

record ClaudeMessage =
  role :: ClaudeRole
  content :: MessageContent

record OpenAIToolCall =
  tc_id :: string
  tc_name :: string  \<comment> \<open>\<open>function.name\<close>\<close>
  tc_arguments :: string  \<comment> \<open>\<open>function.arguments\<close>\<close>

record OpenAIMessage =
  oa_role :: OpenAIRole
  oa_content :: "string option"
  tool_calls :: "OpenAIToolCall list option"
  tool_call_id :: "string option"

section \<open>Request translator (src/providers/base.ts)\<close>

text \<open>The grouping loop of \<open>convertClaudeMessageToOpenAI\<close>: three arrays filled in block order.\<close>

fun textBlocks :: "ClaudeContentBlock list \<Rightarrow> string list" where
  "textBlocks [] = []"
| "textBlocks (TextBlock t # bs) = t # textBlocks bs"
| "textBlocks (_ # bs) = textBlocks bs"

fun toolUseBlocks :: "ClaudeContentBlock list \<Rightarrow> (string \<times> string \<times> json) list" where
  "toolUseBlocks [] = []"
| "toolUseBlocks (ToolUseBlock i n inp # bs) = (i, n, inp) # toolUseBlocks bs"
| "toolUseBlocks (_ # bs) = toolUseBlocks bs"

fun toolResultBlocks :: "ClaudeContentBlock list \<Rightarrow> (string \<times> ToolResultContent) list" where
  "toolResultBlocks [] = []"
| "toolResultBlocks (ToolResultBlock i c e # bs) = (i, c) # toolResultBlocks bs"
| "toolResultBlocks (_ # bs) = toolResultBlocks bs"

definition resultContent :: "ToolResultContent \<Rightarrow> string" where
  "resultContent c = (case c of ResultString s \<Rightarrow> s | ResultBlocks ts \<Rightarrow> join [newline] ts)"

definition convertClaudeMessageToOpenAI :: "(json \<Rightarrow> string) \<Rightarrow> ClaudeMessage \<Rightarrow> OpenAIMessage list" where
  "convertClaudeMessageToOpenAI stringify msg =
     (case content msg of
        ContentString s \<Rightarrow>
          [\<lparr> oa_role = openai_role (role msg), oa_content = Some s, tool_calls = None, tool_call_id = None \<rparr>]
      | ContentBlocks bs \<Rightarrow>
          (case role msg of
             assistant \<Rightarrow>
               (let joined = join [newline] (textBlocks bs);
                    textContent = (if truthy joined then Some joined else None)
                in if toolUseBlocks bs \<noteq> []
                   then [\<lparr> oa_role = role_assistant, oa_content = textContent,
                           tool_calls = Some (map (\<lambda>(i, n, inp).
                             \<lparr> tc_id = i, tc_name = n, tc_arguments = stringify inp \<rparr>) (toolUseBlocks bs)),
                           tool_call_id = None \<rparr>]
                   else [\<lparr> oa_role = role_assistant, oa_content = Some (or_else textContent []),
                           tool_calls = None, tool_call_id = None \<rparr>])
           | user \<Rightarrow>
               map (\<lambda>(i, c). \<lparr> oa_role = role_tool, oa_content = Some (resultContent c),
                                tool_calls = None, tool_call_id = Some i \<rparr>) (toolResultBlocks bs)
               @ (if textBlocks bs \<noteq> []
                  then [\<lparr> oa_role = role_user, oa_content = Some (join [newline] (textBlocks bs)),
                          tool_calls = None, tool_call_id = None \<rparr>]
                  else [])))"

text \<open>The three block kinds the grouping loop keeps.\<close>

fun is_translated_kind :: "ClaudeContentBlock \<Rightarrow> bool" where
  "is_translated_kind (TextBlock t) = True"
| "is_translated_kind (ToolUseBlock i n inp) = True"
| "is_translated_kind (ToolResultBlock i c e) = True"
| "is_translated_kind b = False"

section \<open>Non-streaming response translator (src/providers/base.ts)\<close>

text \<open>
  The backend's answer as \<open>OpenAIResponse\<close> declares it, except that the usage and its
  counts may be missing: the translator reads them with \<open>response.usage?.prompt_tokens || 0\<close>.
\<close>

record OpenAIUsage =
  prompt_tokens :: "nat option"
  completion_tokens :: "nat option"
  total_tokens :: "nat option"

record ChoiceMessage =
  cm_role :: string
  cm_content :: "string option"
  cm_tool_calls :: "OpenAIToolCall list option"

record Choice =
  ch_index :: nat
  message :: ChoiceMessage
  finish_reason :: "string option"

record OpenAIResponse =
  or_id :: string
  or_object :: string
  or_created :: nat
  or_model :: string
  choices :: "Choice list"
  usage :: "OpenAIUsage option"

record ClaudeUsage =
  input_tokens :: nat
  output_tokens :: nat

record ClaudeResponse =
  cr_id :: string
  cr_type :: string
  cr_role :: ClaudeRole
  cr_content :: "ClaudeContentBlock list"
  cr_model :: string
  stop_reason :: "string option"
  stop_sequence :: "string option"
  cr_usage :: ClaudeUsage

definition mapFinishReason :: "string option \<Rightarrow> string" where
  "mapFinishReason reason =
     (if reason = Some ''stop'' then ''end_turn''
      else if reason = Some ''length'' then ''max_tokens''
      else if reason = Some ''content_filter'' then ''stop_sequence''
      else if reason = Some ''tool_calls'' then ''tool_use''
      else ''end_turn'')"

definition or_zero :: "nat option \<Rightarrow> nat" where
  \<comment> \<open>\<open>n || 0\<close>\<close>
  "or_zero n = (case n of None \<Rightarrow> 0 | Some k \<Rightarrow> k)"

fun decodeToolCalls :: "(string \<Rightarrow> json option) \<Rightarrow> OpenAIToolCall list \<Rightarrow> error + ClaudeContentBlock list" where
  \<comment> \<open>the \<open>for (const toolCall of choice.message.tool_calls)\<close> loop; a throwing
      \<open>JSON.parse\<close> leaves the loop and the function\<close>
  "decodeToolCalls parse [] = Inr []"
| "decodeToolCalls parse (toolCall # rest) =
     (case parse (or_else (Some (tc_arguments toolCall)) ''{}'') of
        None \<Rightarrow> Inl SyntaxError
      | Some inp \<Rightarrow>
          (case decodeToolCalls parse rest of
             Inl e \<Rightarrow> Inl e
           | Inr blocks \<Rightarrow> Inr (ToolUseBlock (tc_id toolCall) (tc_name toolCall) inp # blocks)))"

definition convertOpenAIToClaude :: "(string \<Rightarrow> json option) \<Rightarrow> OpenAIResponse \<Rightarrow> string \<Rightarrow> error + ClaudeResponse" where
  "convertOpenAIToClaude parse response originalModel =
     (let choice = (case choices response of [] \<Rightarrow> None | c # _ \<Rightarrow> Some c);
          text = (case choice of
                    None \<Rightarrow> []
                  | Some c \<Rightarrow> if truthy_opt (cm_content (message c))
                              then [TextBlock (the (cm_content (message c)))] else []);
          calls = (case choice of
                     None \<Rightarrow> []
                   | Some c \<Rightarrow> (case cm_tool_calls (message c) of None \<Rightarrow> [] | Some tcs \<Rightarrow> tcs))
      in case decodeToolCalls parse calls of
           Inl e \<Rightarrow> Inl e
         | Inr tools \<Rightarrow>
             Inr \<lparr> cr_id = ''msg_'' @ or_id response,
                   cr_type = ''message'',
                   cr_role = assistant,
                   cr_content = (if text @ tools = [] then [TextBlock []] else text @ tools),
                   cr_model = originalModel,
                   stop_reason = Some (mapFinishReason
                     (case choice of None \<Rightarrow> None | Some c \<Rightarrow> finish_reason c)),
                   stop_sequence = None,
                   cr_usage = \<lparr> input_tokens = (case usage response of None \<Rightarrow> 0
                                  | Some u \<Rightarrow> or_zero (prompt_tokens u)),
                                output_tokens = (case usage response of None \<Rightarrow> 0
                                  | Some u \<Rightarrow> or_zero (completion_tokens u)) \<rparr> \<rparr>)"

text \<open>The text a tool call hands to the decoder: \<open>toolCall.function.arguments || '{}'\<close>.\<close>

definition arguments_text :: "OpenAIToolCall \<Rightarrow> string" where
  "arguments_text tc = (if tc_arguments tc = [] then ''{}'' else tc_arguments tc)"

section \<open>Streaming relay (src/providers/ollama.ts and lmstudio.ts, \<open>stream\<close>)\<close>

text \<open>
  The two providers relay a stream with the same code, line for line. The relay's inputs are
  the byte chunks of the backend's response body, in arrival order, and the end of the body.
  Its output is the sequence of events written to the client.

  The decoder \<open>parse\<close> stands for \<open>JSON.parse(data) as OpenAIStreamChunk\<close>. It returns
  \<open>None\<close> where \<open>JSON.parse\<close> throws: the \<open>catch\<close> block then drops the line. Otherwise it
  returns the decoded value, taken to have the shape the interface \<open>OpenAIStreamChunk\<close>
  declares; on such a value no statement of the \<open>try\<close> block throws. Transport errors
  (\<open>upstream.on('error')\<close>) end a session without the end handler and are not part of
  the model.
\<close>

subsection \<open>Backend chunks (types.ts)\<close>

record StreamFunction =
  fn_name :: "string option"
  fn_arguments :: "string option"

record OpenAIStreamToolCall =
  index :: int
  st_id :: "string option"
  st_type :: "string option"
  st_function :: "StreamFunction option"

record StreamDelta =
  delta_role :: "string option"
  delta_content :: "string option"
  delta_tool_calls :: "OpenAIStreamToolCall list option"

record StreamChoice =
  sc_index :: nat
  delta :: StreamDelta
  sc_finish_reason :: "string option"

record OpenAIStreamChunk =
  chunk_id :: string
  chunk_object :: string
  chunk_created :: nat
  chunk_model :: string
  chunk_choices :: "StreamChoice list"
  chunk_usage :: "OpenAIUsage option"

subsection \<open>Client events\<close>

datatype StartedBlock =
    text_block  \<comment> \<open>\<open>{ type: 'text', text: '' }\<close>\<close>
  | tool_use_block string string  \<comment> \<open>\<open>{ type: 'tool_use', id, name, input: {} }\<close>\<close>

datatype BlockDelta =
    text_delta string
  | input_json_delta string

datatype SSEvent =
    message_start string string  \<comment> \<open>message id, model\<close>
  | content_block_start nat StartedBlock
  | content_block_delta nat BlockDelta
  | content_block_stop nat
  | message_delta string nat  \<comment> \<open>stop reason, output tokens\<close>
  | message_stop

subsection \<open>Session state\<close>

record StreamingToolCall =
  stc_id :: string
  stc_name :: string
  stc_arguments :: string

text \<open>
  The local variables of the response callback. \<open>toolCalls\<close> is a JavaScript \<open>Map\<close>: the
  list of its entries in insertion order. \<open>written\<close> collects the \<open>res.write\<close> calls.
  \<open>clockReads\<close> counts the readings of \<open>Date.now()\<close> made so far; the clock itself is a
  parameter \<open>clock\<close>, whose \<open>k\<close>-th reading is \<open>clock k\<close>.
\<close>

record RelaySession =
  inputTokens :: nat
  outputTokens :: nat
  buffer :: string
  hasStartedTextBlock :: bool
  currentBlockIndex :: nat
  finishReason :: string
  toolCalls :: "(int \<times> StreamingToolCall) list"
  hasToolCalls :: bool
  written :: "SSEvent list"
  clockReads :: nat

definition res_write :: "SSEvent \<Rightarrow> RelaySession \<Rightarrow> RelaySession" where
  "res_write e s = s \<lparr> written := written s @ [e] \<rparr>"

fun map_set :: "'k \<Rightarrow> 'v \<Rightarrow> ('k \<times> 'v) list \<Rightarrow> ('k \<times> 'v) list" where
  \<comment> \<open>\<open>Map.prototype.set\<close>: a present key keeps its place, a new key goes last\<close>
  "map_set k v [] = [(k, v)]"
| "map_set k v ((k', v') # m) = (if k' = k then (k, v) # m else (k', v') # map_set k v m)"

fun show_nat :: "nat \<Rightarrow> string" where
  "show_nat n =
     (if n < 10 then [''0123456789'' ! n]
      else show_nat (n div 10) @ [''0123456789'' ! (n mod 10)])"

declare show_nat.simps [simp del]

definition show_int :: "int \<Rightarrow> string" where
  "show_int i = (if i < 0 then CHR ''-'' # show_nat (nat (- i)) else show_nat (nat i))"

definition generated_id :: "nat \<Rightarrow> int \<Rightarrow> string" where
  \<comment> \<open>\<open>`toolu_${Date.now()}_${tcIndex}`\<close>\<close>
  "generated_id now tcIndex = ''toolu_'' @ show_nat now @ ''_'' @ show_int tcIndex"

subsection \<open>One decoded chunk\<close>

definition first_choice :: "OpenAIStreamChunk \<Rightarrow> StreamChoice option" where
  \<comment> \<open>\<open>parsed.choices[0]\<close>\<close>
  "first_choice parsed = (case chunk_choices parsed of [] \<Rightarrow> None | c # _ \<Rightarrow> Some c)"

definition chunk_content :: "OpenAIStreamChunk \<Rightarrow> string option" where
  \<comment> \<open>\<open>choice?.delta?.content\<close>\<close>
  "chunk_content parsed = (case first_choice parsed of None \<Rightarrow> None | Some c \<Rightarrow> delta_content (delta c))"

definition chunk_tool_calls :: "OpenAIStreamChunk \<Rightarrow> OpenAIStreamToolCall list" where
  \<comment> \<open>\<open>choice?.delta?.tool_calls\<close>, an absent list read as the empty one\<close>
  "chunk_tool_calls parsed =
     (case first_choice parsed of
        None \<Rightarrow> []
      | Some c \<Rightarrow> (case delta_tool_calls (delta c) of None \<Rightarrow> [] | Some ds \<Rightarrow> ds))"

definition chunk_finish_reason :: "OpenAIStreamChunk \<Rightarrow> string option" where
  \<comment> \<open>\<open>choice?.finish_reason\<close>\<close>
  "chunk_finish_reason parsed =
     (case first_choice parsed of None \<Rightarrow> None | Some c \<Rightarrow> sc_finish_reason c)"

definition delta_name :: "OpenAIStreamToolCall \<Rightarrow> string option" where
  \<comment> \<open>\<open>toolCallDelta.function?.name\<close>\<close>
  "delta_name d = (case st_function d of None \<Rightarrow> None | Some f \<Rightarrow> fn_name f)"

definition delta_arguments :: "OpenAIStreamToolCall \<Rightarrow> string option" where
  \<comment> \<open>\<open>toolCallDelta.function?.arguments\<close>\<close>
  "delta_arguments d = (case st_function d of None \<Rightarrow> None | Some f \<Rightarrow> fn_arguments f)"

definition handle_text :: "string option \<Rightarrow> RelaySession \<Rightarrow> RelaySession" where
  "handle_text fragment s =
     (if truthy_opt fragment
      then let s1 = (if \<not> hasStartedTextBlock s
                     then (res_write (content_block_start (currentBlockIndex s) text_block) s)
                            \<lparr> hasStartedTextBlock := True \<rparr>
                     else s);
               s2 = s1 \<lparr> outputTokens := outputTokens s1 + 1 \<rparr>
           in res_write (content_block_delta (currentBlockIndex s2) (text_delta (the fragment))) s2
      else s)"

definition allocate :: "(nat \<Rightarrow> nat) \<Rightarrow> OpenAIStreamToolCall \<Rightarrow> RelaySession \<Rightarrow> RelaySession" where
  \<comment> \<open>\<open>if (!toolCalls.has(tcIndex)) toolCalls.set(tcIndex, {...})\<close>; the clock is read only
      when the fragment has no id\<close>
  "allocate clock d s =
     (if map_of (toolCalls s) (index d) = None
      then (if truthy_opt (st_id d)
            then s \<lparr> toolCalls := map_set (index d)
                       \<lparr> stc_id = the (st_id d), stc_name = or_else (delta_name d) [],
                         stc_arguments = [] \<rparr> (toolCalls s) \<rparr>
            else s \<lparr> toolCalls := map_set (index d)
                       \<lparr> stc_id = generated_id (clock (clockReads s)) (index d),
                         stc_name = or_else (delta_name d) [], stc_arguments = [] \<rparr> (toolCalls s),
                     clockReads := Suc (clockReads s) \<rparr>)
      else s)"

definition merge :: "OpenAIStreamToolCall \<Rightarrow> StreamingToolCall \<Rightarrow> StreamingToolCall" where
  \<comment> \<open>the three updates of \<open>tc\<close>\<close>
  "merge d tc =
     (let tc1 = (if truthy_opt (st_id d) then tc \<lparr> stc_id := the (st_id d) \<rparr> else tc);
          tc2 = (if truthy_opt (delta_name d) then tc1 \<lparr> stc_name := the (delta_name d) \<rparr> else tc1)
      in if truthy_opt (delta_arguments d)
         then tc2 \<lparr> stc_arguments := stc_arguments tc2 @ the (delta_arguments d) \<rparr>
         else tc2)"

definition handle_tool_call_delta :: "(nat \<Rightarrow> nat) \<Rightarrow> RelaySession \<Rightarrow> OpenAIStreamToolCall \<Rightarrow> RelaySession" where
  \<comment> \<open>the body of \<open>for (const toolCallDelta of deltaToolCalls)\<close>; \<open>tc\<close> is the entry itself,
      updated in place\<close>
  "handle_tool_call_delta clock s d =
     (let s1 = allocate clock d s
      in case map_of (toolCalls s1) (index d) of
           None \<Rightarrow> s1
         | Some tc \<Rightarrow> s1 \<lparr> toolCalls := map_set (index d) (merge d tc) (toolCalls s1) \<rparr>)"

definition handle_tool_calls :: "(nat \<Rightarrow> nat) \<Rightarrow> OpenAIStreamToolCall list \<Rightarrow> RelaySession \<Rightarrow> RelaySession" where
  "handle_tool_calls clock deltaToolCalls s =
     (if deltaToolCalls \<noteq> []
      then foldl (handle_tool_call_delta clock) (s \<lparr> hasToolCalls := True \<rparr>) deltaToolCalls
      else s)"

definition handle_finish :: "string option \<Rightarrow> RelaySession \<Rightarrow> RelaySession" where
  "handle_finish reason s =
     (if truthy_opt reason then s \<lparr> finishReason := mapFinishReason reason \<rparr> else s)"

definition handle_usage :: "OpenAIUsage option \<Rightarrow> RelaySession \<Rightarrow> RelaySession" where
  \<comment> \<open>\<open>inputTokens = parsed.usage.prompt_tokens || inputTokens\<close>\<close>
  "handle_usage u s =
     (case u of
        None \<Rightarrow> s
      | Some us \<Rightarrow> s \<lparr> inputTokens :=
          (case prompt_tokens us of None \<Rightarrow> inputTokens s
           | Some n \<Rightarrow> if n \<noteq> 0 then n else inputTokens s) \<rparr>)"

definition on_chunk :: "(nat \<Rightarrow> nat) \<Rightarrow> RelaySession \<Rightarrow> OpenAIStreamChunk \<Rightarrow> RelaySession" where
  \<comment> \<open>the \<open>try\<close> block after \<open>JSON.parse\<close>\<close>
  "on_chunk clock s parsed =
     handle_usage (chunk_usage parsed)
       (handle_finish (chunk_finish_reason parsed)
         (handle_tool_calls clock (chunk_tool_calls parsed)
           (handle_text (chunk_content parsed) s)))"

subsection \<open>Bytes to lines to chunks\<close>

fun split_lines :: "string \<Rightarrow> string list" where
  \<comment> \<open>\<open>buffer.split('\<newline>')\<close>: one more piece than there are newlines\<close>
  "split_lines [] = [[]]"
| "split_lines (c # cs) =
     (if c = newline then [] # split_lines cs
      else (case split_lines cs of [] \<Rightarrow> [[c]] | l # ls \<Rightarrow> (c # l) # ls))"

definition decode_line :: "(string \<Rightarrow> OpenAIStreamChunk option) \<Rightarrow> string \<Rightarrow> OpenAIStreamChunk option" where
  \<comment> \<open>the chunk a line carries, if any: a \<open>data: \<close> line other than the sentinel whose
      payload \<open>JSON.parse\<close> accepts\<close>
  "decode_line parse line =
     (if startsWith line ''data: ''
      then (let payload = drop 6 line in if payload = ''[DONE]'' then None else parse payload)
      else None)"

definition on_line :: "(string \<Rightarrow> OpenAIStreamChunk option) \<Rightarrow> (nat \<Rightarrow> nat) \<Rightarrow> RelaySession \<Rightarrow> string \<Rightarrow> RelaySession" where
  "on_line parse clock s line =
     (case decode_line parse line of None \<Rightarrow> s | Some parsed \<Rightarrow> on_chunk clock s parsed)"

definition on_data :: "(string \<Rightarrow> OpenAIStreamChunk option) \<Rightarrow> (nat \<Rightarrow> nat) \<Rightarrow> RelaySession \<Rightarrow> string \<Rightarrow> RelaySession" where
  \<comment> \<open>\<open>upstream.on('data', ...)\<close>\<close>
  "on_data parse clock s chunk =
     (let lines = split_lines (buffer s @ chunk)
      in foldl (on_line parse clock) (s \<lparr> buffer := last lines \<rparr>) (butlast lines))"

subsection \<open>End of the backend stream\<close>

fun emit_tool_blocks :: "(int \<times> StreamingToolCall) list \<Rightarrow> RelaySession \<Rightarrow> RelaySession" where
  \<comment> \<open>\<open>for (const [, tc] of toolCalls)\<close>\<close>
  "emit_tool_blocks [] s = s"
| "emit_tool_blocks ((slot, tc) # rest) s =
     (let s1 = res_write (content_block_start (currentBlockIndex s)
                        (tool_use_block (stc_id tc) (stc_name tc))) s;
          s2 = (if truthy (stc_arguments tc)
                then res_write (content_block_delta (currentBlockIndex s1)
                              (input_json_delta (stc_arguments tc))) s1
                else s1);
          s3 = res_write (content_block_stop (currentBlockIndex s2)) s2
      in emit_tool_blocks rest (s3 \<lparr> currentBlockIndex := currentBlockIndex s3 + 1 \<rparr>))"

definition on_end :: "RelaySession \<Rightarrow> RelaySession" where
  \<comment> \<open>\<open>upstream.on('end', ...)\<close>\<close>
  "on_end s =
     (let s1 = (if hasStartedTextBlock s
                then (res_write (content_block_stop (currentBlockIndex s)) s)
                       \<lparr> currentBlockIndex := currentBlockIndex s + 1 \<rparr>
                else s);
          s2 = (if hasToolCalls s1 then emit_tool_blocks (toolCalls s1) s1 else s1);
          s3 = (if \<not> hasStartedTextBlock s2 \<and> \<not> hasToolCalls s2
                then res_write (content_block_stop 0) (res_write (content_block_start 0 text_block) s2)
                else s2);
          s4 = res_write (message_delta (finishReason s3) (outputTokens s3)) s3
      in res_write message_stop s4)"

definition session_start :: "string \<Rightarrow> string \<Rightarrow> RelaySession" where
  \<comment> \<open>the initial values of the variables, and the \<open>message_start\<close> event written at once\<close>
  "session_start messageId requestedModel =
     \<lparr> inputTokens = 0, outputTokens = 0, buffer = [], hasStartedTextBlock = False,
       currentBlockIndex = 0, finishReason = ''end_turn'', toolCalls = [], hasToolCalls = False,
       written = [message_start messageId requestedModel], clockReads = 0 \<rparr>"

definition data_phase :: "(string \<Rightarrow> OpenAIStreamChunk option) \<Rightarrow> (nat \<Rightarrow> nat) \<Rightarrow> string \<Rightarrow> string \<Rightarrow> string list \<Rightarrow> RelaySession" where
  \<comment> \<open>the session when the last byte chunk has been handled\<close>
  "data_phase parse clock messageId requestedModel datas =
     foldl (on_data parse clock) (session_start messageId requestedModel) datas"

definition stream :: "(string \<Rightarrow> OpenAIStreamChunk option) \<Rightarrow> (nat \<Rightarrow> nat) \<Rightarrow> string \<Rightarrow> string \<Rightarrow> string list \<Rightarrow> SSEvent list" where
  \<comment> \<open>everything written to the client for one request\<close>
  "stream parse clock messageId requestedModel datas =
     written (on_end (data_phase parse clock messageId requestedModel datas))"

section \<open>Model readiness (src/providers/ollama.ts)\<close>

text \<open>
  The three helpers of \<open>ensureModelReady\<close> each send one request to the backend and return a
  boolean. The backend's answers are a parameter: what \<open>isModelAvailable\<close>, \<open>pullModel\<close> and
  \<open>loadModel\<close> return for a model name at the time of the call. The provider's state is its
  attempted-set; \<open>requests\<close> logs the requests sent, in order. A call runs without
  interruption up to its first \<open>await\<close>, so the attempted-set is updated before any other call
  can start: calls are modelled one after the other.
\<close>

datatype backend_request =
    tags_request string  \<comment> \<open>\<open>GET /api/tags\<close>, sent by \<open>isModelAvailable\<close>\<close>
  | pull_request string  \<comment> \<open>\<open>POST /api/pull\<close>, sent by \<open>pullModel\<close>\<close>
  | generate_request string  \<comment> \<open>\<open>POST /api/generate\<close>, sent by \<open>loadModel\<close>\<close>

record backend =
  available :: "string \<Rightarrow> bool"
  pulls :: "string \<Rightarrow> bool"
  loads :: "string \<Rightarrow> bool"

record OllamaProvider =
  modelLoadAttempted :: "string set"
  requests :: "backend_request list"

definition isModelAvailable :: "backend \<Rightarrow> string \<Rightarrow> OllamaProvider \<Rightarrow> bool \<times> OllamaProvider" where
  "isModelAvailable b modelName p =
     (available b modelName, p \<lparr> requests := requests p @ [tags_request modelName] \<rparr>)"

definition pullModel :: "backend \<Rightarrow> string \<Rightarrow> OllamaProvider \<Rightarrow> bool \<times> OllamaProvider" where
  "pullModel b modelName p =
     (pulls b modelName, p \<lparr> requests := requests p @ [pull_request modelName] \<rparr>)"

definition loadModel :: "backend \<Rightarrow> string \<Rightarrow> OllamaProvider \<Rightarrow> bool \<times> OllamaProvider" where
  "loadModel b modelName p =
     (loads b modelName, p \<lparr> requests := requests p @ [generate_request modelName] \<rparr>)"

definition ensureModelReady :: "backend \<Rightarrow> string \<Rightarrow> OllamaProvider \<Rightarrow> (error + unit) \<times> OllamaProvider" where
  "ensureModelReady b modelName p =
     (if modelName \<in> modelLoadAttempted p then (Inr (), p)
      else
        let p1 = p \<lparr> modelLoadAttempted := insert modelName (modelLoadAttempted p) \<rparr>;
            (isAvailable, p2) = isModelAvailable b modelName p1
        in if \<not> isAvailable
           then (let (pulled, p3) = pullModel b modelName p2
                 in if \<not> pulled then (Inl (PullFailed modelName), p3)
                    else (Inr (), snd (loadModel b modelName p3)))
           else (Inr (), snd (loadModel b modelName p2)))"

fun ensure_all :: "(backend \<times> string) list \<Rightarrow> OllamaProvider \<Rightarrow> OllamaProvider" where
  \<comment> \<open>a run of calls on one provider object, each with the backend's answers at that time;
      a call that throws leaves the provider as it is at the throw\<close>
  "ensure_all [] p = p"
| "ensure_all ((b, modelName) # calls) p = ensure_all calls (snd (ensureModelReady b modelName p))"

definition new_provider :: OllamaProvider where
  "new_provider = \<lparr> modelLoadAttempted = {}, requests = [] \<rparr>"

fun about :: "backend_request \<Rightarrow> string" where
  "about (tags_request n) = n"
| "about (pull_request n) = n"
| "about (generate_request n) = n"

definition once :: "OllamaProvider \<Rightarrow> bool" where
  \<comment> \<open>no request was sent twice, and every request was for an attempted name\<close>
  "once p \<longleftrightarrow> distinct (requests p) \<and> about ` set (requests p) \<subseteq> modelLoadAttempted p"

section \<open>Reading a session: what the relay received and what it wrote\<close>

text \<open>
  The definitions of this section do not model code. They name what the statements below
  talk about: the chunks a byte stream delivers, the text and tool-call fragments among
  them, and the shape of the event sequence.
\<close>

text \<open>
  \<open>complete_lines buf datas\<close> are the lines completed by a newline while the byte chunks
  \<open>datas\<close> arrive on the buffer \<open>buf\<close>; \<open>rest_buffer\<close> is the unfinished line that is left.
  \<open>received parse datas\<close> are the chunks decoded from those lines, in arrival order.
\<close>

fun complete_lines :: "string \<Rightarrow> string list \<Rightarrow> string list" where
  "complete_lines buf [] = []"
| "complete_lines buf (d # ds) =
     butlast (split_lines (buf @ d)) @ complete_lines (last (split_lines (buf @ d))) ds"

fun rest_buffer :: "string \<Rightarrow> string list \<Rightarrow> string" where
  "rest_buffer buf [] = buf"
| "rest_buffer buf (d # ds) = rest_buffer (last (split_lines (buf @ d))) ds"

definition received :: "(string \<Rightarrow> OpenAIStreamChunk option) \<Rightarrow> string list \<Rightarrow> OpenAIStreamChunk list" where
  "received parse datas = List.map_filter (decode_line parse) (complete_lines [] datas)"

text \<open>The non-empty text fragments and the tool-call fragments of a list of chunks, in arrival order.\<close>

fun text_fragments :: "OpenAIStreamChunk list \<Rightarrow> string list" where
  "text_fragments [] = []"
| "text_fragments (c # cs) =
     (if truthy_opt (chunk_content c) then the (chunk_content c) # text_fragments cs
      else text_fragments cs)"

definition tool_deltas :: "OpenAIStreamChunk list \<Rightarrow> OpenAIStreamToolCall list" where
  "tool_deltas cs = concat (map chunk_tool_calls cs)"

text \<open>
  The events of the tool-use blocks for a list of accumulators, from block index \<open>j\<close> on:
  start, one \<open>input_json_delta\<close> unless the accumulated arguments are empty, stop.
\<close>

fun tool_events :: "nat \<Rightarrow> (int \<times> StreamingToolCall) list \<Rightarrow> SSEvent list" where
  "tool_events j [] = []"
| "tool_events j ((slot, tc) # rest) =
     [content_block_start j (tool_use_block (stc_id tc) (stc_name tc))]
     @ (if stc_arguments tc = [] then []
        else [content_block_delta j (input_json_delta (stc_arguments tc))])
     @ [content_block_stop j]
     @ tool_events (Suc j) rest"

text \<open>The accumulators \<open>toolCalls\<close> holds after the tool-call fragments \<open>ds\<close>.\<close>

definition accumulators :: "(nat \<Rightarrow> nat) \<Rightarrow> OpenAIStreamToolCall list \<Rightarrow> (int \<times> StreamingToolCall) list" where
  "accumulators clock ds =
     toolCalls (foldl (handle_tool_call_delta clock) (session_start [] []) ds)"

text \<open>
  The block grammar of an event sequence. \<open>framed opn n es\<close> reads \<open>es\<close> with \<open>opn\<close> the index
  of the block that is open (if any) and \<open>n\<close> the next free index: a block starts only when
  none is open and takes exactly the next free index; a delta and a stop belong to the open
  block; message events stand outside blocks; at the end no block is open. \<open>starts\<close> and
  \<open>stops\<close> list the indices of the \<open>content_block_start\<close> and \<open>content_block_stop\<close> events
  in emission order.
\<close>

fun framed :: "nat option \<Rightarrow> nat \<Rightarrow> SSEvent list \<Rightarrow> bool" where
  "framed opn n [] = (opn = None)"
| "framed opn n (content_block_start i b # es) = (opn = None \<and> i = n \<and> framed (Some i) (Suc n) es)"
| "framed opn n (content_block_delta i d # es) = (opn = Some i \<and> framed opn n es)"
| "framed opn n (content_block_stop i # es) = (opn = Some i \<and> framed None n es)"
| "framed opn n (e # es) = (opn = None \<and> framed opn n es)"

fun starts :: "SSEvent list \<Rightarrow> nat list" where
  "starts [] = []"
| "starts (content_block_start i b # es) = i # starts es"
| "starts (e # es) = starts es"

fun stops :: "SSEvent list \<Rightarrow> nat list" where
  "stops [] = []"
| "stops (content_block_stop i # es) = i # stops es"
| "stops (e # es) = stops es"

text \<open>
  The slots addressed by a list of tool-call fragments, in the order they were first seen,
  and the argument fragments addressed to one slot, in arrival order (a fragment without
  argument text counts as the empty string).
\<close>

definition slots :: "OpenAIStreamToolCall list \<Rightarrow> int list" where
  "slots ds = foldl (\<lambda>seen d. if index d \<in> set seen then seen else seen @ [index d]) [] ds"

definition fragments :: "int \<Rightarrow> OpenAIStreamToolCall list \<Rightarrow> string list" where
  "fragments k ds = map (\<lambda>d. or_else (delta_arguments d) []) (filter (\<lambda>d. index d = k) ds)"

text \<open>The block index an event carries, and the events that belong to a tool-use block.\<close>

fun event_index :: "SSEvent \<Rightarrow> nat option" where
  "event_index (content_block_start i b) = Some i"
| "event_index (content_block_delta i d) = Some i"
| "event_index (content_block_stop i) = Some i"
| "event_index e = None"

fun tool_use_event :: "SSEvent \<Rightarrow> bool" where
  "tool_use_event (content_block_start i (tool_use_block tid name)) = True"
| "tool_use_event (content_block_delta i (input_json_delta args)) = True"
| "tool_use_event e = False"

text \<open>The accumulator allocated for a fragment that opens a slot, at clock reading \<open>r\<close>.\<close>

definition new_entry :: "(nat \<Rightarrow> nat) \<Rightarrow> nat \<Rightarrow> OpenAIStreamToolCall \<Rightarrow> StreamingToolCall" where
  "new_entry clock r d =
     \<lparr> stc_id = (if truthy_opt (st_id d) then the (st_id d) else generated_id (clock r) (index d)),
       stc_name = or_else (delta_name d) [], stc_arguments = [] \<rparr>"

text \<open>
  A routing table whose exact entry for the requested name maps to the empty string, behind
  an earlier entry that is a proper prefix of the name.
\<close>

definition empty_target_config :: Config where
  "empty_target_config =
     DEFAULT_CONFIG \<lparr> provider := Ollama,
       ollama := (ollama DEFAULT_CONFIG) \<lparr> modelRouting :=
         Some [ (''claude-3'', ''llama3:8b''), (''claude-3-opus'', []) ] \<rparr> \<rparr>"

text \<open>
  A stand-in for \<open>JSON.stringify\<close> in closed examples: it agrees with \<open>JSON.stringify\<close> on
  the empty object and on the object \<open>{"city":"Paris"}\<close>, the only values the examples pass
  to it.
\<close>

definition encode_table :: "json \<Rightarrow> string" where
  "encode_table j =
     (if j = JObject [] then ''{}''
      else if j = JObject [(''city'', JString ''Paris'')] then ''{\"city\":\"Paris\"}''
      else ''null'')"

text \<open>
  A stand-in for \<open>JSON.parse\<close> in closed examples. It agrees with \<open>JSON.parse\<close> on the strings
  the examples hand to it: \<open>{}\<close> and \<open>{"city":"Paris"}\<close> decode to those objects; the cut-off
  text \<open>{"city":\<close> and the text \<open>not json\<close> make \<open>JSON.parse\<close> throw a SyntaxError.
\<close>

definition decode_table :: "string \<Rightarrow> json option" where
  "decode_table s =
     (if s = ''{}'' then Some (JObject [])
      else if s = ''{\"city\":\"Paris\"}'' then Some (JObject [(''city'', JString ''Paris'')])
      else None)"

text \<open>Backend answers: the plain text answer of the specification's scenario, and answers with tool calls.\<close>

definition weather_calls :: "string \<Rightarrow> string \<Rightarrow> OpenAIToolCall list" where
  "weather_calls args1 args2 =
     [ \<lparr> tc_id = ''call_1'', tc_name = ''get_time'', tc_arguments = args1 \<rparr>,
       \<lparr> tc_id = ''call_2'', tc_name = ''get_weather'', tc_arguments = args2 \<rparr> ]"

definition weather_choice :: "string \<Rightarrow> string \<Rightarrow> Choice" where
  "weather_choice args1 args2 =
     \<lparr> ch_index = 0,
       message = \<lparr> cm_role = ''assistant'', cm_content = Some ''hello'',
                   cm_tool_calls = Some (weather_calls args1 args2) \<rparr>,
       finish_reason = Some ''stop'' \<rparr>"

definition weather_response :: "string \<Rightarrow> string \<Rightarrow> OpenAIResponse" where
  \<comment> \<open>a backend answer with text and two tool calls, by their argument strings\<close>
  "weather_response args1 args2 =
     \<lparr> or_id = ''chatcmpl-1'', or_object = ''chat.completion'', or_created = 0,
       or_model = ''llama3:8b'',
       choices = [weather_choice args1 args2],
       usage = Some \<lparr> prompt_tokens = Some 5, completion_tokens = Some 3, total_tokens = Some 8 \<rparr> \<rparr>"

definition hello_choice :: Choice where
  "hello_choice =
     \<lparr> ch_index = 0,
       message = \<lparr> cm_role = ''assistant'', cm_content = Some ''hello'', cm_tool_calls = None \<rparr>,
       finish_reason = Some ''stop'' \<rparr>"

definition hello_response :: OpenAIResponse where
  "hello_response =
     \<lparr> or_id = ''chatcmpl-1'', or_object = ''chat.completion'', or_created = 0,
       or_model = ''llama3:8b'',
       choices = [hello_choice],
       usage = Some \<lparr> prompt_tokens = Some 5, completion_tokens = Some 3, total_tokens = Some 8 \<rparr> \<rparr>"

definition broken_call_response :: OpenAIResponse where
  \<comment> \<open>one tool call whose argument text was cut off\<close>
  "broken_call_response =
     \<lparr> or_id = ''chatcmpl-2'', or_object = ''chat.completion'', or_created = 0,
       or_model = ''llama3:8b'',
       choices = [ \<lparr> ch_index = 0,
         message = \<lparr> cm_role = ''assistant'', cm_content = None,
           cm_tool_calls = Some
             [ \<lparr> tc_id = ''call_1'', tc_name = ''get_weather'', tc_arguments = ''{\"city\":'' \<rparr> ] \<rparr>,
         finish_reason = Some ''tool_calls'' \<rparr> ],
       usage = Some \<lparr> prompt_tokens = Some 5, completion_tokens = Some 3, total_tokens = Some 8 \<rparr> \<rparr>"

text \<open>
  Backend chunks for closed examples, as JSON text and as decoded values. \<open>stream_decode\<close>
  stands in for \<open>JSON.parse\<close>: it agrees with \<open>JSON.parse\<close> on the payloads the example
  sessions contain, each of which is the JSON text of the chunk it is mapped to.
\<close>

abbreviation backslash :: char where
  "backslash \<equiv> CHR 0x5C"

definition example_chunk :: "StreamDelta \<Rightarrow> string option \<Rightarrow> OpenAIStreamChunk" where
  "example_chunk d fin =
     \<lparr> chunk_id = ''c1'', chunk_object = ''chat.completion.chunk'', chunk_created = 0,
       chunk_model = ''llama3:8b'',
       chunk_choices = [ \<lparr> sc_index = 0, delta = d, sc_finish_reason = fin \<rparr> ],
       chunk_usage = None \<rparr>"

definition payload :: "string \<Rightarrow> string \<Rightarrow> string" where
  "payload d fin =
     ''{\"id\":\"c1\",\"object\":\"chat.completion.chunk\",\"created\":0,\"model\":\"llama3:8b\",''
     @ ''\"choices\":[{\"index\":0,\"delta\":'' @ d @ '',\"finish_reason\":'' @ fin @ ''}]}''"

definition tool_fragment :: "int \<Rightarrow> string option \<Rightarrow> string option \<Rightarrow> string \<Rightarrow> StreamDelta" where
  "tool_fragment slot tid name args =
     \<lparr> delta_role = None, delta_content = None,
       delta_tool_calls = Some [ \<lparr> index = slot, st_id = tid, st_type = None,
         st_function = Some \<lparr> fn_name = name, fn_arguments = Some args \<rparr> \<rparr> ] \<rparr>"

definition role_payload :: string where
  "role_payload = payload ''{\"role\":\"assistant\",\"content\":\"\"}'' ''null''"

definition stop_payload :: string where
  "stop_payload = payload ''{}'' ''\"stop\"''"

definition tool_calls_payload :: string where
  "tool_calls_payload = payload ''{}'' ''\"tool_calls\"''"

definition weather1_payload :: string where
  "weather1_payload =
     payload (''{\"tool_calls\":[{\"index\":0,\"id\":\"call_1\",\"function\":{\"name\":\"get_weather\",\"arguments\":\"{''
              @ [backslash] @ ''\"ci\"}}]}'') ''null''"

definition weather2_payload :: string where
  "weather2_payload =
     payload (''{\"tool_calls\":[{\"index\":0,\"function\":{\"arguments\":\"ty''
              @ [backslash] @ ''\":'' @ [backslash] @ ''\"Par\"}}]}'') ''null''"

definition weather3_payload :: string where
  "weather3_payload =
     payload (''{\"tool_calls\":[{\"index\":0,\"function\":{\"arguments\":\"is''
              @ [backslash] @ ''\"}\"}}]}'') ''null''"

definition time_payload :: string where
  "time_payload =
     payload ''{\"tool_calls\":[{\"index\":1,\"function\":{\"name\":\"get_time\",\"arguments\":\"{}\"}}]}'' ''null''"

definition empty1_payload :: string where
  "empty1_payload =
     payload ''{\"tool_calls\":[{\"index\":0,\"id\":\"call_1\",\"function\":{\"name\":\"get_time\",\"arguments\":\"\"}}]}'' ''null''"

definition empty2_payload :: string where
  "empty2_payload =
     payload ''{\"tool_calls\":[{\"index\":0,\"function\":{\"arguments\":\"\"}}]}'' ''null''"

definition stream_decode :: "string \<Rightarrow> OpenAIStreamChunk option" where
  "stream_decode s =
     (if s = role_payload
      then Some (example_chunk \<lparr> delta_role = Some ''assistant'', delta_content = Some [],
                                  delta_tool_calls = None \<rparr> None)
      else if s = stop_payload
      then Some (example_chunk \<lparr> delta_role = None, delta_content = None,
                                  delta_tool_calls = None \<rparr> (Some ''stop''))
      else if s = tool_calls_payload
      then Some (example_chunk \<lparr> delta_role = None, delta_content = None,
                                  delta_tool_calls = None \<rparr> (Some ''tool_calls''))
      else if s = weather1_payload
      then Some (example_chunk (tool_fragment 0 (Some ''call_1'') (Some ''get_weather'') ''{\"ci'') None)
      else if s = weather2_payload
      then Some (example_chunk (tool_fragment 0 None None ''ty\":\"Par'') None)
      else if s = weather3_payload
      then Some (example_chunk (tool_fragment 0 None None ''is\"}'') None)
      else if s = time_payload
      then Some (example_chunk (tool_fragment 1 None (Some ''get_time'') ''{}'') None)
      else if s = empty1_payload
      then Some (example_chunk (tool_fragment 0 (Some ''call_1'') (Some ''get_time'') []) None)
      else if s = empty2_payload
      then Some (example_chunk (tool_fragment 0 None None []) None)
      else None)"

definition sse :: "string \<Rightarrow> string" where
  \<comment> \<open>one server-sent event: a \<open>data: \<close> line and a blank line\<close>
  "sse p = ''data: '' @ p @ [newline, newline]"

definition silent_body :: "string list" where
  "silent_body = [ sse role_payload @ ''data: '', stop_payload @ [newline, newline], sse ''[DONE]'' ]"

definition weather_body :: "string list" where
  "weather_body =
     [ sse weather1_payload @ sse weather2_payload,
       sse time_payload @ ''data: '',
       weather3_payload @ [newline, newline] @ sse tool_calls_payload @ sse ''[DONE]'' ]"

definition no_arguments_body :: "string list" where
  "no_arguments_body =
     [ sse empty1_payload, sse empty2_payload, sse tool_calls_payload @ sse ''[DONE]'' ]"

definition example_clock :: "nat \<Rightarrow> nat" where
  "example_clock k = 1730000000000 + k"

section \<open>Model router: the truthiness of the exact match\<close>

lemma prefix_match_none:
  "(\<forall>(k, v) \<in> set routing. \<not> prefix k req) \<Longrightarrow> prefix_match routing req = None"
  by (induction routing) (auto simp: startsWith_def)

lemma prefix_match_first:
  "(\<forall>(k', v') \<in> set pre. \<not> prefix k' req) \<Longrightarrow> prefix k req
   \<Longrightarrow> prefix_match (pre @ (k, v) # post) req = Some v"
  by (induction pre) (auto simp: startsWith_def)

text \<open>
  Where the code does what the router's contract says. A key mapped to a non-empty value
  resolves to that value, whatever other keys are prefixes of the name. A name that is no
  key and not the name of an inherited member resolves to the value of the first entry in
  table order whose key is a prefix of it, and to the backend's default model when there is
  no such entry.
\<close>

lemma resolveModel_agrees:
  "(map_of (routing_table c) req = Some v \<and> v \<noteq> [] \<longrightarrow> resolveModel c req = str v) \<and>
   (map_of (routing_table c) req = None \<and> req \<notin> set object_prototype_members
      \<and> routing_table c = pre @ (k, v) # post \<and> prefix k req
      \<and> (\<forall>(k', v') \<in> set pre. \<not> prefix k' req)
      \<longrightarrow> resolveModel c req = str v) \<and>
   (map_of (routing_table c) req = None \<and> req \<notin> set object_prototype_members
      \<and> (\<forall>(k', v') \<in> set (routing_table c). \<not> prefix k' req)
      \<longrightarrow> resolveModel c req = str (model (provider_config c)))"
proof (intro conjI impI)
  assume "map_of (routing_table c) req = Some v \<and> v \<noteq> []"
  then show "resolveModel c req = str v"
    by (simp add: resolveModel_def property_read_def truthy_value_def truthy_def)
next
  assume a: "map_of (routing_table c) req = None \<and> req \<notin> set object_prototype_members
      \<and> routing_table c = pre @ (k, v) # post \<and> prefix k req
      \<and> (\<forall>(k', v') \<in> set pre. \<not> prefix k' req)"
  then have "map_of (routing_table c) req = None" and "req \<notin> set object_prototype_members"
    by blast+
  then have "property_read (routing_table c) req = None"
    by (simp add: property_read_def)
  moreover from a have "prefix_match (routing_table c) req = Some v"
    using prefix_match_first [of pre req k v post] by simp
  ultimately show "resolveModel c req = str v"
    by (simp add: resolveModel_def truthy_value_def)
next
  assume a: "map_of (routing_table c) req = None \<and> req \<notin> set object_prototype_members
      \<and> (\<forall>(k', v') \<in> set (routing_table c). \<not> prefix k' req)"
  then have "map_of (routing_table c) req = None" and "req \<notin> set object_prototype_members"
    by blast+
  then have "property_read (routing_table c) req = None"
    by (simp add: property_read_def)
  moreover from a have "prefix_match (routing_table c) req = None"
    using prefix_match_none [of "routing_table c" req] by simp
  ultimately show "resolveModel c req = str (model (provider_config c))"
    by (simp add: resolveModel_def truthy_value_def)
qed

lemma ollama_routing:
  "routing_table (DEFAULT_CONFIG \<lparr> provider := Ollama \<rparr>) =
     [ (''claude-opus-4'', ''llama3:70b''),
       (''claude-sonnet-4'', ''llama3:8b''),
       (''claude-3-5-sonnet'', ''llama3:8b''),
       (''claude-3-5-haiku'', ''phi3:mini''),
       (''claude-3-opus'', ''llama3:70b''),
       (''claude-3-sonnet'', ''llama3:8b''),
       (''claude-3-haiku'', ''phi3:mini'') ]"
  by (simp add: routing_table_def provider_config_def DEFAULT_CONFIG_def)

lemma ollama_model:
  "model (provider_config (DEFAULT_CONFIG \<lparr> provider := Ollama \<rparr>)) = ''llama3:8b''"
  by (simp add: provider_config_def DEFAULT_CONFIG_def)

lemma empty_target_routing:
  "routing_table empty_target_config = [ (''claude-3'', ''llama3:8b''), (''claude-3-opus'', []) ]"
  by (simp add: routing_table_def provider_config_def empty_target_config_def DEFAULT_CONFIG_def)

text \<open>
  The three cases on the default Ollama table: an exact key, a dated name matched by
  prefix, and a name no key matches.
\<close>

lemma resolveModel_agrees_example:
  "resolveModel (DEFAULT_CONFIG \<lparr> provider := Ollama \<rparr>) ''claude-3-opus'' = str ''llama3:70b'' \<and>
   resolveModel (DEFAULT_CONFIG \<lparr> provider := Ollama \<rparr>) ''claude-3-haiku-20240307'' = str ''phi3:mini'' \<and>
   resolveModel (DEFAULT_CONFIG \<lparr> provider := Ollama \<rparr>) ''gpt-4'' = str ''llama3:8b''"
proof -
  let ?c = "DEFAULT_CONFIG \<lparr> provider := Ollama \<rparr>"
  have 1: "resolveModel ?c ''claude-3-opus'' = str ''llama3:70b''"
    using resolveModel_agrees [where c = ?c and req = "''claude-3-opus''" and v = "''llama3:70b''"]
    by (simp add: ollama_routing)
  have 2: "resolveModel ?c ''claude-3-haiku-20240307'' = str ''phi3:mini''"
    using resolveModel_agrees [where c = ?c and req = "''claude-3-haiku-20240307''"
        and pre = "[ (''claude-opus-4'', ''llama3:70b''),
       (''claude-sonnet-4'', ''llama3:8b''),
       (''claude-3-5-sonnet'', ''llama3:8b''),
       (''claude-3-5-haiku'', ''phi3:mini''),
       (''claude-3-opus'', ''llama3:70b''),
       (''claude-3-sonnet'', ''llama3:8b'')]" and k = "''claude-3-haiku''" and v = "''phi3:mini''"
        and post = "[]"]
    by (simp add: ollama_routing object_prototype_members_def)
  have 3: "resolveModel ?c ''gpt-4'' = str ''llama3:8b''"
    using resolveModel_agrees [where c = ?c and req = "''gpt-4''"]
    by (simp add: ollama_routing ollama_model object_prototype_members_def)
  from 1 2 3 show ?thesis by simp
qed

text \<open>
  Claim C3 fails on the code, at two inputs. The claim: \<open>resolveModel\<close> returns the value
  mapped to the requested name when the name is a key of the routing table, whatever
  prefixes match; otherwise the value of the first entry whose key is a prefix of the name;
  otherwise the backend's default model. The code tests the exact match by the truthiness of
  \<open>routing[requestedModel]\<close>. First input: the name \<open>claude-3-opus\<close> is a key, mapped to the
  empty string, behind the key \<open>claude-3\<close>; the empty string is falsy, the exact match is
  passed over, and the code returns \<open>llama3:8b\<close>, the value of the prefix \<open>claude-3\<close>. Second
  input: the name \<open>constructor\<close> on the default Ollama table; it is no key and no key is a
  prefix of it, so the claim gives the default model \<open>llama3:8b\<close>, but the property read
  finds the inherited member, which is truthy, and the code returns it: a function, not a
  model name.
\<close>

theorem resolveModel_truthiness_failures:
  "map_of (routing_table empty_target_config) ''claude-3-opus'' = Some []
   \<and> resolveModel empty_target_config ''claude-3-opus'' = str ''llama3:8b''
   \<and> map_of (routing_table (DEFAULT_CONFIG \<lparr> provider := Ollama \<rparr>)) ''constructor'' = None
   \<and> prefix_match (routing_table (DEFAULT_CONFIG \<lparr> provider := Ollama \<rparr>)) ''constructor'' = None
   \<and> model (provider_config (DEFAULT_CONFIG \<lparr> provider := Ollama \<rparr>)) = ''llama3:8b''
   \<and> resolveModel (DEFAULT_CONFIG \<lparr> provider := Ollama \<rparr>) ''constructor''
       = inherited_member ''constructor''"
  by (simp add: resolveModel_def property_read_def truthy_value_def truthy_def startsWith_def
      ollama_routing ollama_model empty_target_routing object_prototype_members_def)

section \<open>Request translator: block-structured messages\<close>

lemma textBlocks_mem: "t \<in> set (textBlocks bs) \<longleftrightarrow> TextBlock t \<in> set bs"
  by (induction bs rule: textBlocks.induct) auto

lemma toolUseBlocks_mem: "(i, n, inp) \<in> set (toolUseBlocks bs) \<longleftrightarrow> ToolUseBlock i n inp \<in> set bs"
  by (induction bs rule: toolUseBlocks.induct) auto

lemma toolResultBlocks_mem:
  "(i, c) \<in> set (toolResultBlocks bs) \<longleftrightarrow> (\<exists>e. ToolResultBlock i c e \<in> set bs)"
  by (induction bs rule: toolResultBlocks.induct) auto

lemma textBlocks_empty: "textBlocks bs = [] \<longleftrightarrow> (\<forall>t. TextBlock t \<notin> set bs)"
  using textBlocks_mem [of _ bs] by (cases "textBlocks bs") auto

lemma toolResultBlocks_empty:
  "toolResultBlocks bs = [] \<longleftrightarrow> (\<forall>i c e. ToolResultBlock i c e \<notin> set bs)"
proof (cases "toolResultBlocks bs")
  case Nil
  then show ?thesis using toolResultBlocks_mem [of _ _ bs] by auto
next
  case (Cons p ps)
  then obtain i c where "(i, c) \<in> set (toolResultBlocks bs)" by (cases p) auto
  then show ?thesis using Cons toolResultBlocks_mem [of i c bs] by auto
qed

lemma textBlocks_filter: "textBlocks (filter is_translated_kind bs) = textBlocks bs"
  by (induction bs rule: textBlocks.induct) auto

lemma toolUseBlocks_filter: "toolUseBlocks (filter is_translated_kind bs) = toolUseBlocks bs"
  by (induction bs rule: toolUseBlocks.induct) auto

lemma toolResultBlocks_filter: "toolResultBlocks (filter is_translated_kind bs) = toolResultBlocks bs"
  by (induction bs rule: toolResultBlocks.induct) auto

text \<open>
  Claim C6. A user message with block-structured content that holds at least one tool-result
  block and at least one text block translates to one backend message of role \<open>tool\<close> per
  tool-result block, in block order, each carrying the tool-use id and the result content
  (a block-structured result flattened by joining its texts with newlines), followed by
  exactly one backend \<open>user\<close> message with the newline-joined text blocks: every \<open>tool\<close>
  message stands before the \<open>user\<close> message, wherever the blocks stood in the input.
\<close>

theorem user_tool_results_before_text:
  assumes "role msg = user" and "content msg = ContentBlocks bs"
    and "ToolResultBlock ri rc re \<in> set bs" and "TextBlock tx \<in> set bs"
  shows "convertClaudeMessageToOpenAI stringify msg =
           map (\<lambda>(i, c). \<lparr> oa_role = role_tool,
                  oa_content = Some (case c of ResultString s \<Rightarrow> s | ResultBlocks ts \<Rightarrow> join [newline] ts),
                  tool_calls = None, tool_call_id = Some i \<rparr>) (toolResultBlocks bs)
           @ [\<lparr> oa_role = role_user, oa_content = Some (join [newline] (textBlocks bs)),
                 tool_calls = None, tool_call_id = None \<rparr>]
         \<and> toolResultBlocks bs \<noteq> []"
proof -
  from assms(4) have "textBlocks bs \<noteq> []" using textBlocks_mem [of tx bs] by auto
  moreover from assms(3) have "toolResultBlocks bs \<noteq> []"
    using toolResultBlocks_mem [of ri rc bs] by auto
  ultimately show ?thesis using assms(1,2)
    by (simp add: convertClaudeMessageToOpenAI_def resultContent_def)
qed

text \<open>Two tool results interleaved with two text blocks: both tool messages come first.\<close>

theorem user_tool_results_before_text_witness:
  "convertClaudeMessageToOpenAI encode_table
     \<lparr> role = user, content = ContentBlocks
        [ ToolResultBlock ''toolu_1'' (ResultBlocks [''18 C'', ''sunny'']) None,
          TextBlock ''thanks'',
          ToolResultBlock ''toolu_2'' (ResultString ''ok'') None,
          TextBlock ''and now?'' ] \<rparr> =
     [ \<lparr> oa_role = role_tool, oa_content = Some (''18 C'' @ [newline] @ ''sunny''),
         tool_calls = None, tool_call_id = Some ''toolu_1'' \<rparr>,
       \<lparr> oa_role = role_tool, oa_content = Some ''ok'',
         tool_calls = None, tool_call_id = Some ''toolu_2'' \<rparr>,
       \<lparr> oa_role = role_user, oa_content = Some (''thanks'' @ [newline] @ ''and now?''),
         tool_calls = None, tool_call_id = None \<rparr> ]"
  using user_tool_results_before_text [where stringify = encode_table and msg = "\<lparr> role = user, content = ContentBlocks
        [ ToolResultBlock ''toolu_1'' (ResultBlocks [''18 C'', ''sunny'']) None,
          TextBlock ''thanks'',
          ToolResultBlock ''toolu_2'' (ResultString ''ok'') None,
          TextBlock ''and now?'' ] \<rparr>" and ri = "''toolu_1''" and rc = "ResultBlocks [''18 C'', ''sunny'']"
          and re = None and tx = "''thanks''"]
  by simp

text \<open>
  Claim C7, as amended. An assistant message with block-structured content translates to
  exactly one backend assistant message. Its content is the newline-joined text of the text
  blocks when that string is non-empty. When the joined text is empty (no text blocks, or only
  empty ones), the content is null if the message has tool-use blocks and the empty string if
  it has none. With tool-use blocks the message carries one tool-call entry per block (id,
  name, serialized input), in block order, next to the content; without, it carries none.
\<close>

theorem assistant_blocks_amended:
  assumes "role msg = assistant" and "content msg = ContentBlocks bs"
  shows "\<exists>m. convertClaudeMessageToOpenAI stringify msg = [m]
           \<and> oa_role m = role_assistant \<and> tool_call_id m = None
           \<and> (join [newline] (textBlocks bs) \<noteq> [] \<longrightarrow>
                oa_content m = Some (join [newline] (textBlocks bs)))
           \<and> (join [newline] (textBlocks bs) = [] \<and> toolUseBlocks bs \<noteq> [] \<longrightarrow> oa_content m = None)
           \<and> (join [newline] (textBlocks bs) = [] \<and> toolUseBlocks bs = [] \<longrightarrow> oa_content m = Some [])
           \<and> (toolUseBlocks bs \<noteq> [] \<longrightarrow>
                tool_calls m = Some (map (\<lambda>(i, n, inp).
                  \<lparr> tc_id = i, tc_name = n, tc_arguments = stringify inp \<rparr>) (toolUseBlocks bs)))
           \<and> (toolUseBlocks bs = [] \<longrightarrow> tool_calls m = None)"
  using assms
  by (simp add: convertClaudeMessageToOpenAI_def Let_def truthy_def or_else_def)

text \<open>Two text blocks around one tool-use block, and a tool-use block alone (null content).\<close>

theorem assistant_blocks_amended_witness:
  "convertClaudeMessageToOpenAI encode_table
     \<lparr> role = assistant, content = ContentBlocks
        [ TextBlock ''Let me check.'',
          ToolUseBlock ''toolu_1'' ''get_weather'' (JObject [(''city'', JString ''Paris'')]),
          TextBlock ''One moment.'' ] \<rparr> =
     [ \<lparr> oa_role = role_assistant,
         oa_content = Some (''Let me check.'' @ [newline] @ ''One moment.''),
         tool_calls = Some [ \<lparr> tc_id = ''toolu_1'', tc_name = ''get_weather'',
                               tc_arguments = ''{\"city\":\"Paris\"}'' \<rparr> ],
         tool_call_id = None \<rparr> ]
   \<and> convertClaudeMessageToOpenAI encode_table
     \<lparr> role = assistant, content = ContentBlocks
        [ ToolUseBlock ''toolu_2'' ''get_time'' (JObject []) ] \<rparr> =
     [ \<lparr> oa_role = role_assistant, oa_content = None,
         tool_calls = Some [ \<lparr> tc_id = ''toolu_2'', tc_name = ''get_time'', tc_arguments = ''{}'' \<rparr> ],
         tool_call_id = None \<rparr> ]"
  using assistant_blocks_amended [where stringify = encode_table and msg = "\<lparr> role = assistant, content = ContentBlocks
        [ TextBlock ''Let me check.'',
          ToolUseBlock ''toolu_1'' ''get_weather'' (JObject [(''city'', JString ''Paris'')]),
          TextBlock ''One moment.'' ] \<rparr>"]
    assistant_blocks_amended [where stringify = encode_table and msg = "\<lparr> role = assistant, content = ContentBlocks
        [ ToolUseBlock ''toolu_2'' ''get_time'' (JObject []) ] \<rparr>"]
  by (simp add: encode_table_def convertClaudeMessageToOpenAI_def Let_def truthy_def)

text \<open>
  Claim C7 as stated fails: an assistant message with no text block and no tool-use block gets
  the empty string as content (the \<open>textContent || ''\<close> of the branch without tool calls),
  not null.
\<close>

theorem assistant_no_text_counterexample:
  "textBlocks [ThinkingBlock ''hmm'' ''sig''] = [] \<and>
   convertClaudeMessageToOpenAI encode_table
     \<lparr> role = assistant, content = ContentBlocks [ThinkingBlock ''hmm'' ''sig''] \<rparr> =
     [ \<lparr> oa_role = role_assistant, oa_content = Some [], tool_calls = None, tool_call_id = None \<rparr> ]"
  by (simp add: convertClaudeMessageToOpenAI_def Let_def truthy_def or_else_def)

text \<open>
  Claim C10. A user message whose block-structured content holds no text block and no
  tool-result block translates to no backend message at all. In any message, the blocks that
  are not text, tool-use or tool-result blocks contribute nothing: deleting them from the
  content leaves the translation unchanged.
\<close>

theorem untranslated_blocks_dropped:
  "(role msg = user \<and> content msg = ContentBlocks bs
      \<and> (\<forall>t. TextBlock t \<notin> set bs) \<and> (\<forall>i c e. ToolResultBlock i c e \<notin> set bs)
      \<longrightarrow> convertClaudeMessageToOpenAI stringify msg = []) \<and>
   (content msg = ContentBlocks bs
      \<longrightarrow> convertClaudeMessageToOpenAI stringify (msg \<lparr> content := ContentBlocks (filter is_translated_kind bs) \<rparr>)
          = convertClaudeMessageToOpenAI stringify msg)"
proof (intro conjI impI)
  assume a: "role msg = user \<and> content msg = ContentBlocks bs
      \<and> (\<forall>t. TextBlock t \<notin> set bs) \<and> (\<forall>i c e. ToolResultBlock i c e \<notin> set bs)"
  then have "textBlocks bs = []" and "toolResultBlocks bs = []"
    by (simp_all add: textBlocks_empty toolResultBlocks_empty)
  with a show "convertClaudeMessageToOpenAI stringify msg = []"
    by (simp add: convertClaudeMessageToOpenAI_def)
next
  assume "content msg = ContentBlocks bs"
  then show "convertClaudeMessageToOpenAI stringify (msg \<lparr> content := ContentBlocks (filter is_translated_kind bs) \<rparr>)
          = convertClaudeMessageToOpenAI stringify msg"
    by (cases "role msg")
      (simp_all add: convertClaudeMessageToOpenAI_def Let_def textBlocks_filter toolUseBlocks_filter
        toolResultBlocks_filter)
qed

text \<open>
  A user message of an image and a thinking block is dropped; a message that also has a text
  block translates as if the image and the thinking block were not there.
\<close>

theorem untranslated_blocks_dropped_witness:
  "convertClaudeMessageToOpenAI encode_table
     \<lparr> role = user, content = ContentBlocks
        [ ImageBlock \<lparr> source_type = ''base64'', media_type = Some ''image/png'',
                       data = Some ''iVBORw0KGgo='', url_or_file_id = None \<rparr>,
          ThinkingBlock ''hmm'' ''sig'' ] \<rparr> = [] \<and>
   convertClaudeMessageToOpenAI encode_table
     (\<lparr> role = user, content = ContentBlocks
        [ ThinkingBlock ''hmm'' ''sig'', TextBlock ''hi'' ] \<rparr>
      \<lparr> content := ContentBlocks (filter is_translated_kind
        [ ThinkingBlock ''hmm'' ''sig'', TextBlock ''hi'' ]) \<rparr>) =
   convertClaudeMessageToOpenAI encode_table
     \<lparr> role = user, content = ContentBlocks
        [ ThinkingBlock ''hmm'' ''sig'', TextBlock ''hi'' ] \<rparr>"
proof -
  have a: "convertClaudeMessageToOpenAI encode_table
     \<lparr> role = user, content = ContentBlocks
        [ ImageBlock \<lparr> source_type = ''base64'', media_type = Some ''image/png'',
                       data = Some ''iVBORw0KGgo='', url_or_file_id = None \<rparr>,
          ThinkingBlock ''hmm'' ''sig'' ] \<rparr> = []"
    using untranslated_blocks_dropped [where stringify = encode_table and msg = "\<lparr> role = user, content = ContentBlocks
        [ ImageBlock \<lparr> source_type = ''base64'', media_type = Some ''image/png'',
                       data = Some ''iVBORw0KGgo='', url_or_file_id = None \<rparr>,
          ThinkingBlock ''hmm'' ''sig'' ] \<rparr>"]
    by simp
  have b: "convertClaudeMessageToOpenAI encode_table
     (\<lparr> role = user, content = ContentBlocks
        [ ThinkingBlock ''hmm'' ''sig'', TextBlock ''hi'' ] \<rparr>
      \<lparr> content := ContentBlocks (filter is_translated_kind
        [ ThinkingBlock ''hmm'' ''sig'', TextBlock ''hi'' ]) \<rparr>) =
   convertClaudeMessageToOpenAI encode_table
     \<lparr> role = user, content = ContentBlocks
        [ ThinkingBlock ''hmm'' ''sig'', TextBlock ''hi'' ] \<rparr>"
    using untranslated_blocks_dropped [where stringify = encode_table and msg = "\<lparr> role = user, content = ContentBlocks
        [ ThinkingBlock ''hmm'' ''sig'', TextBlock ''hi'' ] \<rparr>"
        and bs = "[ ThinkingBlock ''hmm'' ''sig'', TextBlock ''hi'' ]"]
    by simp
  from a b show ?thesis by simp
qed

section \<open>Response translator: text, tool calls, decode failures\<close>

lemma or_else_arguments: "or_else (Some (tc_arguments tc)) ''{}'' = arguments_text tc"
  by (simp add: or_else_def truthy_def arguments_text_def)

lemma decodeToolCalls_ok:
  "(\<forall>tc \<in> set tcs. parse (arguments_text tc) \<noteq> None) \<Longrightarrow>
   decodeToolCalls parse tcs =
     Inr (map (\<lambda>tc. ToolUseBlock (tc_id tc) (tc_name tc) (the (parse (arguments_text tc)))) tcs)"
  by (induction tcs) (auto simp: or_else_arguments)

lemma decodeToolCalls_fails:
  "(\<exists>tc \<in> set tcs. parse (arguments_text tc) = None) \<Longrightarrow>
   decodeToolCalls parse tcs = Inl SyntaxError"
proof (induction tcs)
  case Nil
  then show ?case by simp
next
  case (Cons tc tcs)
  show ?case
  proof (cases "parse (arguments_text tc)")
    case None
    then show ?thesis by (simp add: or_else_arguments)
  next
    case (Some inp)
    with Cons.prems have "\<exists>tc \<in> set tcs. parse (arguments_text tc) = None" by auto
    with Cons.IH Some show ?thesis by (simp add: or_else_arguments)
  qed
qed

lemma toolUseBlocks_map:
  "toolUseBlocks (map (\<lambda>tc. ToolUseBlock (f tc) (g tc) (h tc)) tcs) = map (\<lambda>tc. (f tc, g tc, h tc)) tcs"
  by (induction tcs) auto

lemma textBlocks_map_tool_use:
  "textBlocks (map (\<lambda>tc. ToolUseBlock (f tc) (g tc) (h tc)) tcs) = []"
  by (induction tcs) auto

text \<open>
  Claim C5, as amended. For a backend response whose first choice carries tool calls, and a
  decoder that reads \<open>{}\<close> as the empty object: when every non-empty argument string decodes,
  the translation returns a response with one tool-use block per tool call, in order, with
  the call's id and name and the decoded argument string as input, the empty object for an
  empty argument string. When some tool call has a non-empty argument string that is not
  valid JSON, the translation raises the decoder's SyntaxError and returns no response.
\<close>

theorem tool_calls_decoded_or_raise:
  assumes "choices response = c # cs" and "cm_tool_calls (message c) = Some tcs"
    and "parse ''{}'' = Some (JObject [])"
  shows "((\<forall>tc \<in> set tcs. tc_arguments tc \<noteq> [] \<longrightarrow> parse (tc_arguments tc) \<noteq> None) \<longrightarrow>
            (\<exists>r. convertOpenAIToClaude parse response originalModel = Inr r \<and>
                 toolUseBlocks (cr_content r) =
                   map (\<lambda>tc. (tc_id tc, tc_name tc,
                          if tc_arguments tc = [] then JObject []
                          else the (parse (tc_arguments tc)))) tcs)) \<and>
         ((\<exists>tc \<in> set tcs. tc_arguments tc \<noteq> [] \<and> parse (tc_arguments tc) = None) \<longrightarrow>
            convertOpenAIToClaude parse response originalModel = Inl SyntaxError)"
proof (intro conjI impI)
  assume "\<forall>tc \<in> set tcs. tc_arguments tc \<noteq> [] \<longrightarrow> parse (tc_arguments tc) \<noteq> None"
  with assms(3) have ok: "\<forall>tc \<in> set tcs. parse (arguments_text tc) \<noteq> None"
    by (simp add: arguments_text_def)
  have same: "\<And>tc. the (parse (arguments_text tc)) =
      (if tc_arguments tc = [] then JObject [] else the (parse (tc_arguments tc)))"
    using assms(3) by (simp add: arguments_text_def)
  have "\<exists>r. convertOpenAIToClaude parse response originalModel = Inr r \<and>
                 toolUseBlocks (cr_content r) =
                   map (\<lambda>tc. (tc_id tc, tc_name tc, the (parse (arguments_text tc)))) tcs"
    using assms(1,2) decodeToolCalls_ok [OF ok]
    by (cases tcs)
      (simp_all add: convertOpenAIToClaude_def Let_def toolUseBlocks_map)
  with same show "\<exists>r. convertOpenAIToClaude parse response originalModel = Inr r \<and>
                 toolUseBlocks (cr_content r) =
                   map (\<lambda>tc. (tc_id tc, tc_name tc,
                          if tc_arguments tc = [] then JObject []
                          else the (parse (tc_arguments tc)))) tcs"
    by simp
next
  assume "\<exists>tc \<in> set tcs. tc_arguments tc \<noteq> [] \<and> parse (tc_arguments tc) = None"
  then have "\<exists>tc \<in> set tcs. parse (arguments_text tc) = None"
    by (auto simp: arguments_text_def)
  from decodeToolCalls_fails [OF this] assms(1,2)
  show "convertOpenAIToClaude parse response originalModel = Inl SyntaxError"
    by (simp add: convertOpenAIToClaude_def Let_def)
qed

text \<open>
  An empty and a valid argument string decode to the empty object and to the object; an
  argument string that is no JSON text makes the translation raise.
\<close>

theorem tool_calls_decoded_or_raise_witness:
  "(\<exists>r. convertOpenAIToClaude decode_table (weather_response [] ''{\"city\":\"Paris\"}'') ''claude-3-opus'' = Inr r \<and>
      toolUseBlocks (cr_content r) =
        [ (''call_1'', ''get_time'', JObject []),
          (''call_2'', ''get_weather'', JObject [(''city'', JString ''Paris'')]) ]) \<and>
   convertOpenAIToClaude decode_table (weather_response [] ''not json'') ''claude-3-opus'' = Inl SyntaxError"
proof -
  have a: "\<exists>r. convertOpenAIToClaude decode_table (weather_response [] ''{\"city\":\"Paris\"}'') ''claude-3-opus'' = Inr r \<and>
      toolUseBlocks (cr_content r) =
        [ (''call_1'', ''get_time'', JObject []),
          (''call_2'', ''get_weather'', JObject [(''city'', JString ''Paris'')]) ]"
    using tool_calls_decoded_or_raise [where parse = decode_table
        and response = "weather_response [] ''{\"city\":\"Paris\"}''"
        and originalModel = "''claude-3-opus''"
        and c = "weather_choice [] ''{\"city\":\"Paris\"}''" and cs = "[]"
        and tcs = "weather_calls [] ''{\"city\":\"Paris\"}''"]
    by (simp add: weather_response_def weather_choice_def weather_calls_def decode_table_def)
  have b: "convertOpenAIToClaude decode_table (weather_response [] ''not json'') ''claude-3-opus'' = Inl SyntaxError"
    using tool_calls_decoded_or_raise [where parse = decode_table
        and response = "weather_response [] ''not json''"
        and originalModel = "''claude-3-opus''"
        and c = "weather_choice [] ''not json''" and cs = "[]"
        and tcs = "weather_calls [] ''not json''"]
    by (simp add: weather_response_def weather_choice_def weather_calls_def decode_table_def)
  from a b show ?thesis by blast
qed

text \<open>
  Claim C5 as stated fails: the argument string \<open>{"city":\<close> is not valid JSON, and the
  translation does not produce a tool-use block with an empty input: \<open>JSON.parse\<close> throws and
  nothing in \<open>convertOpenAIToClaude\<close> catches it.
\<close>

theorem invalid_arguments_counterexample:
  "convertOpenAIToClaude decode_table broken_call_response ''claude-3-opus'' = Inl SyntaxError"
  by (simp add: convertOpenAIToClaude_def broken_call_response_def decode_table_def or_else_def
      truthy_def)

text \<open>
  Claim C4, as amended. For a backend response whose first choice has non-empty text content
  and finish reason \<open>stop\<close>, and whose tool calls, if any, all carry argument strings that are
  empty or decodable: the translation returns a response with exactly one text block, first
  among the content blocks and carrying that text (the only block when there are no tool
  calls), stop reason \<open>end_turn\<close>, the model name passed as \<open>originalModel\<close> (the providers
  pass \<open>request.model\<close>, the name the client asked for), whatever model the backend reports,
  and the backend's prompt and completion token counts as input and output tokens, zero
  where the usage or a count is missing.
\<close>

theorem text_response_translated:
  assumes "choices response = c # cs" and "cm_content (message c) = Some t" and "t \<noteq> []"
    and "finish_reason c = Some ''stop''"
    and "\<forall>tc \<in> set (case cm_tool_calls (message c) of None \<Rightarrow> [] | Some tcs \<Rightarrow> tcs).
           parse (if tc_arguments tc = [] then ''{}'' else tc_arguments tc) \<noteq> None"
  shows "\<exists>r. convertOpenAIToClaude parse response originalModel = Inr r
           \<and> textBlocks (cr_content r) = [t]
           \<and> hd (cr_content r) = TextBlock t
           \<and> (cm_tool_calls (message c) = None \<longrightarrow> cr_content r = [TextBlock t])
           \<and> stop_reason r = Some ''end_turn''
           \<and> cr_model r = originalModel
           \<and> input_tokens (cr_usage r) =
               (case usage response of None \<Rightarrow> 0
                | Some u \<Rightarrow> (case prompt_tokens u of None \<Rightarrow> 0 | Some n \<Rightarrow> n))
           \<and> output_tokens (cr_usage r) =
               (case usage response of None \<Rightarrow> 0
                | Some u \<Rightarrow> (case completion_tokens u of None \<Rightarrow> 0 | Some n \<Rightarrow> n))"
proof -
  let ?calls = "case cm_tool_calls (message c) of None \<Rightarrow> [] | Some tcs \<Rightarrow> tcs"
  from assms(5) have ok: "\<forall>tc \<in> set ?calls. parse (arguments_text tc) \<noteq> None"
    by (simp add: arguments_text_def)
  show ?thesis
    using assms(1-4) decodeToolCalls_ok [OF ok]
    by (simp add: convertOpenAIToClaude_def Let_def truthy_opt_def truthy_def
        mapFinishReason_def or_zero_def textBlocks_map_tool_use split: option.splits)
qed

text \<open>The scenario of the specification: the backend answers \<open>hello\<close> with usage 5 and 3.\<close>

theorem text_response_translated_witness:
  "convertOpenAIToClaude decode_table hello_response ''claude-3-5-sonnet-20241022'' =
     Inr \<lparr> cr_id = ''msg_chatcmpl-1'', cr_type = ''message'', cr_role = assistant,
           cr_content = [TextBlock ''hello''], cr_model = ''claude-3-5-sonnet-20241022'',
           stop_reason = Some ''end_turn'', stop_sequence = None,
           cr_usage = \<lparr> input_tokens = 5, output_tokens = 3 \<rparr> \<rparr>"
  using text_response_translated [where parse = decode_table and response = hello_response
      and originalModel = "''claude-3-5-sonnet-20241022''" and t = "''hello''"
      and c = hello_choice and cs = "[]"]
  by (simp add: hello_response_def hello_choice_def convertOpenAIToClaude_def Let_def
      truthy_opt_def truthy_def mapFinishReason_def or_zero_def)

text \<open>
  Claim C4 as stated fails: a response with the text \<open>hello\<close>, finish reason \<open>stop\<close> and usage
  counts, whose second tool call carries a cut-off argument string, has no translation; the
  decoder's SyntaxError leaves \<open>convertOpenAIToClaude\<close>.
\<close>

theorem text_response_raises_counterexample:
  "convertOpenAIToClaude decode_table (weather_response [] ''{\"city\":'') ''claude-3-5-sonnet-20241022''
   = Inl SyntaxError"
  by (simp add: convertOpenAIToClaude_def weather_response_def weather_choice_def
      weather_calls_def decode_table_def or_else_def truthy_def)

section \<open>Model readiness: a name is attempted once\<close>

lemma ensureModelReady_attempted:
  "modelName \<in> modelLoadAttempted (snd (ensureModelReady b modelName p))"
  by (simp add: ensureModelReady_def isModelAvailable_def pullModel_def loadModel_def Let_def)

lemma ensureModelReady_again:
  "modelName \<in> modelLoadAttempted p \<Longrightarrow> ensureModelReady b modelName p = (Inr (), p)"
  by (simp add: ensureModelReady_def)

lemma ensureModelReady_first:
  assumes "modelName \<notin> modelLoadAttempted p"
  shows "\<exists>sent. snd (ensureModelReady b modelName p) =
           p \<lparr> modelLoadAttempted := insert modelName (modelLoadAttempted p),
               requests := requests p @ sent \<rparr>
         \<and> distinct sent \<and> about ` set sent \<subseteq> {modelName}"
proof (cases "available b modelName")
  case True
  with assms have "snd (ensureModelReady b modelName p) =
      p \<lparr> modelLoadAttempted := insert modelName (modelLoadAttempted p),
          requests := requests p @ [tags_request modelName, generate_request modelName] \<rparr>"
    by (simp add: ensureModelReady_def isModelAvailable_def loadModel_def)
  then show ?thesis by (intro exI [of _ "[tags_request modelName, generate_request modelName]"]) simp
next
  case False
  show ?thesis
  proof (cases "pulls b modelName")
    case True
    with assms False have "snd (ensureModelReady b modelName p) =
        p \<lparr> modelLoadAttempted := insert modelName (modelLoadAttempted p),
            requests := requests p @ [tags_request modelName, pull_request modelName,
              generate_request modelName] \<rparr>"
      by (simp add: ensureModelReady_def isModelAvailable_def pullModel_def loadModel_def)
    then show ?thesis
      by (intro exI [of _ "[tags_request modelName, pull_request modelName,
              generate_request modelName]"]) simp
  next
    case no_pull: False
    with assms False have "snd (ensureModelReady b modelName p) =
        p \<lparr> modelLoadAttempted := insert modelName (modelLoadAttempted p),
            requests := requests p @ [tags_request modelName, pull_request modelName] \<rparr>"
      by (simp add: ensureModelReady_def isModelAvailable_def pullModel_def)
    then show ?thesis
      by (intro exI [of _ "[tags_request modelName, pull_request modelName]"]) simp
  qed
qed

lemma ensureModelReady_once:
  assumes "once p"
  shows "once (snd (ensureModelReady b modelName p))"
proof (cases "modelName \<in> modelLoadAttempted p")
  case True
  with assms show ?thesis by (simp add: ensureModelReady_again)
next
  case False
  from ensureModelReady_first [OF False, of b] obtain sent where
    s: "snd (ensureModelReady b modelName p) =
           p \<lparr> modelLoadAttempted := insert modelName (modelLoadAttempted p),
               requests := requests p @ sent \<rparr>"
    and d: "distinct sent" and a: "about ` set sent \<subseteq> {modelName}"
    by blast
  from assms False a have "set (requests p) \<inter> set sent = {}"
    unfolding once_def by blast
  with assms d a show ?thesis
    unfolding s once_def by auto
qed

lemma ensure_all_once: "once p \<Longrightarrow> once (ensure_all calls p)"
proof (induction calls arbitrary: p)
  case Nil
  then show ?case by simp
next
  case (Cons c calls)
  obtain b modelName where c: "c = (b, modelName)" by (cases c)
  from Cons.prems have "once (snd (ensureModelReady b modelName p))"
    by (rule ensureModelReady_once)
  from Cons.IH [OF this] show ?case by (simp add: c)
qed

lemma new_provider_once: "once new_provider"
  by (simp add: once_def new_provider_def)

lemma distinct_count: "distinct xs \<Longrightarrow> count_list xs x \<le> 1"
  by (induction xs) auto

lemma once_count: "once p \<Longrightarrow> count_list (requests p) r \<le> 1"
  using distinct_count [of "requests p" r] by (simp add: once_def)

text \<open>
  Claim C9. Whatever the provider's state and whatever the backend answers, a second call of
  \<open>ensureModelReady\<close> for a name after a first one returns normally and leaves the provider
  as the first call left it: it sends no request, whether the first call returned or threw
  (the name enters the attempted-set before the first request is sent). Over any run of
  calls on a new provider, the availability check, the pull and the warm-up are each sent
  at most once for a name.
\<close>

theorem ensureModelReady_idempotent:
  "ensureModelReady b2 modelName (snd (ensureModelReady b1 modelName p))
     = (Inr (), snd (ensureModelReady b1 modelName p))
   \<and> count_list (requests (ensure_all calls new_provider)) (tags_request modelName) \<le> 1
   \<and> count_list (requests (ensure_all calls new_provider)) (pull_request modelName) \<le> 1
   \<and> count_list (requests (ensure_all calls new_provider)) (generate_request modelName) \<le> 1"
proof -
  have "ensureModelReady b2 modelName (snd (ensureModelReady b1 modelName p))
     = (Inr (), snd (ensureModelReady b1 modelName p))"
    using ensureModelReady_attempted by (rule ensureModelReady_again)
  moreover have "once (ensure_all calls new_provider)"
    using new_provider_once by (rule ensure_all_once)
  ultimately show ?thesis
    using once_count [of "ensure_all calls new_provider"] by blast
qed

section \<open>Streaming relay: from bytes to chunks\<close>

lemmas handler_defs = handle_text_def handle_finish_def handle_usage_def res_write_def

text \<open>Handling a chunk neither reads nor changes the line buffer.\<close>

lemma allocate_buffer: "allocate clock d (s \<lparr> buffer := b \<rparr>) = (allocate clock d s) \<lparr> buffer := b \<rparr>"
  by (simp add: allocate_def)

lemma delta_buffer:
  "handle_tool_call_delta clock (s \<lparr> buffer := b \<rparr>) d = (handle_tool_call_delta clock s d) \<lparr> buffer := b \<rparr>"
  by (simp add: handle_tool_call_delta_def allocate_buffer Let_def split: option.splits)

lemma deltas_buffer:
  "foldl (handle_tool_call_delta clock) (s \<lparr> buffer := b \<rparr>) ds =
   (foldl (handle_tool_call_delta clock) s ds) \<lparr> buffer := b \<rparr>"
  by (induction ds arbitrary: s) (simp_all add: delta_buffer)

lemma tool_calls_buffer:
  "handle_tool_calls clock ds (s \<lparr> buffer := b \<rparr>) = (handle_tool_calls clock ds s) \<lparr> buffer := b \<rparr>"
proof -
  have swap: "(s \<lparr> buffer := b \<rparr>) \<lparr> hasToolCalls := True \<rparr> = (s \<lparr> hasToolCalls := True \<rparr>) \<lparr> buffer := b \<rparr>"
    by (cases s) simp
  show ?thesis
    unfolding handle_tool_calls_def swap deltas_buffer by simp
qed

lemma text_buffer: "handle_text t (s \<lparr> buffer := b \<rparr>) = (handle_text t s) \<lparr> buffer := b \<rparr>"
  by (simp add: handler_defs Let_def)

lemma finish_buffer: "handle_finish r (s \<lparr> buffer := b \<rparr>) = (handle_finish r s) \<lparr> buffer := b \<rparr>"
  by (simp add: handler_defs)

lemma usage_buffer: "handle_usage u (s \<lparr> buffer := b \<rparr>) = (handle_usage u s) \<lparr> buffer := b \<rparr>"
  by (simp add: handler_defs split: option.splits)

lemma on_chunk_buffer: "on_chunk clock (s \<lparr> buffer := b \<rparr>) c = (on_chunk clock s c) \<lparr> buffer := b \<rparr>"
  by (simp add: on_chunk_def text_buffer tool_calls_buffer finish_buffer usage_buffer)

lemma on_chunks_buffer:
  "foldl (on_chunk clock) (s \<lparr> buffer := b \<rparr>) cs = (foldl (on_chunk clock) s cs) \<lparr> buffer := b \<rparr>"
  by (induction cs arbitrary: s) (simp_all add: on_chunk_buffer)

lemma on_lines:
  "foldl (on_line parse clock) s ls = foldl (on_chunk clock) s (List.map_filter (decode_line parse) ls)"
  by (induction ls arbitrary: s) (simp_all add: on_line_def split: option.splits)

lemma on_data_chunks:
  "on_data parse clock s d =
     (foldl (on_chunk clock) s
        (List.map_filter (decode_line parse) (butlast (split_lines (buffer s @ d)))))
     \<lparr> buffer := last (split_lines (buffer s @ d)) \<rparr>"
  by (simp add: on_data_def Let_def on_lines on_chunks_buffer)

lemma map_filter_app: "List.map_filter f (xs @ ys) = List.map_filter f xs @ List.map_filter f ys"
  by (simp add: List.map_filter_def)

lemma on_datas_chunks:
  "foldl (on_data parse clock) s datas =
     (foldl (on_chunk clock) s
        (List.map_filter (decode_line parse) (complete_lines (buffer s) datas)))
     \<lparr> buffer := rest_buffer (buffer s) datas \<rparr>"
proof (induction datas arbitrary: s)
  case Nil
  then show ?case by simp
next
  case (Cons d datas)
  let ?s1 = "on_data parse clock s d"
  let ?b1 = "last (split_lines (buffer s @ d))"
  let ?cs1 = "List.map_filter (decode_line parse) (butlast (split_lines (buffer s @ d)))"
  have s1: "?s1 = (foldl (on_chunk clock) s ?cs1) \<lparr> buffer := ?b1 \<rparr>"
    by (rule on_data_chunks)
  then have b1: "buffer ?s1 = ?b1" by simp
  have "foldl (on_data parse clock) s (d # datas) = foldl (on_data parse clock) ?s1 datas"
    by simp
  also have "\<dots> = (foldl (on_chunk clock) ?s1
        (List.map_filter (decode_line parse) (complete_lines ?b1 datas)))
     \<lparr> buffer := rest_buffer ?b1 datas \<rparr>"
    unfolding Cons.IH [of ?s1] b1 ..
  also have "\<dots> = (foldl (on_chunk clock) (foldl (on_chunk clock) s ?cs1)
        (List.map_filter (decode_line parse) (complete_lines ?b1 datas)))
     \<lparr> buffer := rest_buffer ?b1 datas \<rparr>"
    unfolding s1 on_chunks_buffer by simp
  finally show ?case
    by (simp add: map_filter_app)
qed

text \<open>What one tool-call fragment leaves alone.\<close>

lemma delta_frame:
  "written (handle_tool_call_delta clock s d) = written s"
  "currentBlockIndex (handle_tool_call_delta clock s d) = currentBlockIndex s"
  "hasStartedTextBlock (handle_tool_call_delta clock s d) = hasStartedTextBlock s"
  "outputTokens (handle_tool_call_delta clock s d) = outputTokens s"
  "hasToolCalls (handle_tool_call_delta clock s d) = hasToolCalls s"
  "finishReason (handle_tool_call_delta clock s d) = finishReason s"
  by (simp_all add: handle_tool_call_delta_def allocate_def Let_def split: option.splits)

lemma deltas_frame:
  "written (foldl (handle_tool_call_delta clock) s ds) = written s"
  "currentBlockIndex (foldl (handle_tool_call_delta clock) s ds) = currentBlockIndex s"
  "hasStartedTextBlock (foldl (handle_tool_call_delta clock) s ds) = hasStartedTextBlock s"
  "outputTokens (foldl (handle_tool_call_delta clock) s ds) = outputTokens s"
  "hasToolCalls (foldl (handle_tool_call_delta clock) s ds) = hasToolCalls s"
  "finishReason (foldl (handle_tool_call_delta clock) s ds) = finishReason s"
  by (induction ds arbitrary: s) (simp_all add: delta_frame)

text \<open>The accumulators and the clock readings depend on nothing else in the session.\<close>

lemma delta_local:
  assumes "toolCalls s = toolCalls s'" and "clockReads s = clockReads s'"
  shows "toolCalls (handle_tool_call_delta clock s d) = toolCalls (handle_tool_call_delta clock s' d)
       \<and> clockReads (handle_tool_call_delta clock s d) = clockReads (handle_tool_call_delta clock s' d)"
  using assms
  by (simp add: handle_tool_call_delta_def allocate_def Let_def split: option.splits)

lemma deltas_local:
  assumes "toolCalls s = toolCalls s'" and "clockReads s = clockReads s'"
  shows "toolCalls (foldl (handle_tool_call_delta clock) s ds)
           = toolCalls (foldl (handle_tool_call_delta clock) s' ds)
       \<and> clockReads (foldl (handle_tool_call_delta clock) s ds)
           = clockReads (foldl (handle_tool_call_delta clock) s' ds)"
  using assms
proof (induction ds arbitrary: s s')
  case Nil
  then show ?case by simp
next
  case (Cons d ds)
  from delta_local [OF Cons.prems, of clock d] show ?case
    using Cons.IH [of "handle_tool_call_delta clock s d" "handle_tool_call_delta clock s' d"]
    by simp
qed

lemma on_chunk_text:
  "currentBlockIndex (on_chunk clock s c) = currentBlockIndex s"
  "hasStartedTextBlock (on_chunk clock s c) = (hasStartedTextBlock s \<or> truthy_opt (chunk_content c))"
  "outputTokens (on_chunk clock s c) = outputTokens s + (if truthy_opt (chunk_content c) then 1 else 0)"
  "written (on_chunk clock s c) =
     written s @
     (if truthy_opt (chunk_content c)
      then (if hasStartedTextBlock s then []
            else [content_block_start (currentBlockIndex s) text_block])
           @ [content_block_delta (currentBlockIndex s) (text_delta (the (chunk_content c)))]
      else [])"
  "hasToolCalls (on_chunk clock s c) = (hasToolCalls s \<or> chunk_tool_calls c \<noteq> [])"
  by (simp_all add: on_chunk_def handle_usage_def handle_finish_def handle_tool_calls_def
      deltas_frame handle_text_def res_write_def Let_def split: option.splits)

lemma on_chunk_tools:
  "toolCalls (on_chunk clock s c) = toolCalls (foldl (handle_tool_call_delta clock) s (chunk_tool_calls c))
   \<and> clockReads (on_chunk clock s c) = clockReads (foldl (handle_tool_call_delta clock) s (chunk_tool_calls c))"
proof -
  let ?t = "handle_text (chunk_content c) s"
  have t: "toolCalls ?t = toolCalls s" "clockReads ?t = clockReads s"
    by (simp_all add: handle_text_def res_write_def Let_def)
  have "toolCalls (on_chunk clock s c) = toolCalls (handle_tool_calls clock (chunk_tool_calls c) ?t)
      \<and> clockReads (on_chunk clock s c) = clockReads (handle_tool_calls clock (chunk_tool_calls c) ?t)"
    by (simp add: on_chunk_def handle_usage_def handle_finish_def split: option.splits)
  moreover have "toolCalls (handle_tool_calls clock (chunk_tool_calls c) ?t)
        = toolCalls (foldl (handle_tool_call_delta clock) s (chunk_tool_calls c))
      \<and> clockReads (handle_tool_calls clock (chunk_tool_calls c) ?t)
        = clockReads (foldl (handle_tool_call_delta clock) s (chunk_tool_calls c))"
  proof (cases "chunk_tool_calls c = []")
    case True
    then show ?thesis by (simp add: handle_tool_calls_def t)
  next
    case False
    then show ?thesis
      using deltas_local [of "?t \<lparr> hasToolCalls := True \<rparr>" s clock "chunk_tool_calls c"]
      by (simp add: handle_tool_calls_def t)
  qed
  ultimately show ?thesis by simp
qed

text \<open>The session after a list of decoded chunks.\<close>

lemma on_chunks_text:
  "currentBlockIndex (foldl (on_chunk clock) s cs) = currentBlockIndex s"
  "hasStartedTextBlock (foldl (on_chunk clock) s cs) = (hasStartedTextBlock s \<or> text_fragments cs \<noteq> [])"
  "outputTokens (foldl (on_chunk clock) s cs) = outputTokens s + length (text_fragments cs)"
  "hasToolCalls (foldl (on_chunk clock) s cs) = (hasToolCalls s \<or> tool_deltas cs \<noteq> [])"
  by (induction cs arbitrary: s) (auto simp: on_chunk_text tool_deltas_def)

lemma on_chunks_written:
  "written (foldl (on_chunk clock) s cs) =
     written s @
     (if hasStartedTextBlock s \<or> text_fragments cs = [] then []
      else [content_block_start (currentBlockIndex s) text_block])
     @ map (\<lambda>t. content_block_delta (currentBlockIndex s) (text_delta t)) (text_fragments cs)"
  by (induction cs arbitrary: s) (simp_all add: on_chunk_text)

lemma on_chunks_tools:
  "toolCalls (foldl (on_chunk clock) s cs) = toolCalls (foldl (handle_tool_call_delta clock) s (tool_deltas cs))
   \<and> clockReads (foldl (on_chunk clock) s cs) = clockReads (foldl (handle_tool_call_delta clock) s (tool_deltas cs))"
proof (induction cs arbitrary: s)
  case Nil
  then show ?case by (simp add: tool_deltas_def)
next
  case (Cons c cs)
  let ?a = "on_chunk clock s c"
  let ?b = "foldl (handle_tool_call_delta clock) s (chunk_tool_calls c)"
  from on_chunk_tools [of clock s c]
  have "toolCalls ?a = toolCalls ?b" and "clockReads ?a = clockReads ?b" by simp_all
  from deltas_local [OF this, of clock "tool_deltas cs"] Cons.IH [of ?a]
  show ?case by (simp add: tool_deltas_def)
qed

section \<open>Streaming relay: the events of a session\<close>

lemma emit_tool_blocks_written:
  "written (emit_tool_blocks tcs s) = written s @ tool_events (currentBlockIndex s) tcs
   \<and> hasStartedTextBlock (emit_tool_blocks tcs s) = hasStartedTextBlock s
   \<and> hasToolCalls (emit_tool_blocks tcs s) = hasToolCalls s
   \<and> finishReason (emit_tool_blocks tcs s) = finishReason s
   \<and> outputTokens (emit_tool_blocks tcs s) = outputTokens s"
proof (induction tcs arbitrary: s)
  case Nil
  then show ?case by simp
next
  case (Cons p tcs)
  obtain slot tc where p: "p = (slot, tc)" by (cases p)
  show ?case
    unfolding p by (simp add: Cons.IH Let_def res_write_def truthy_def)
qed

lemma on_end_written:
  "written (on_end s) =
     written s
     @ (if hasStartedTextBlock s then [content_block_stop (currentBlockIndex s)] else [])
     @ (if hasToolCalls s
        then tool_events (currentBlockIndex s + (if hasStartedTextBlock s then 1 else 0)) (toolCalls s)
        else [])
     @ (if \<not> hasStartedTextBlock s \<and> \<not> hasToolCalls s
        then [content_block_start 0 text_block, content_block_stop 0] else [])
     @ [message_delta (finishReason s) (outputTokens s), message_stop]"
  by (simp add: on_end_def Let_def res_write_def emit_tool_blocks_written)

lemma on_end_buffer: "written (on_end (s \<lparr> buffer := b \<rparr>)) = written (on_end s)"
  by (simp add: on_end_written)

lemma data_phase_chunks:
  "data_phase parse clock mid mdl datas =
     (foldl (on_chunk clock) (session_start mid mdl) (received parse datas))
     \<lparr> buffer := rest_buffer [] datas \<rparr>"
  by (simp add: data_phase_def received_def on_datas_chunks session_start_def)

lemma data_phase_written:
  "written (data_phase parse clock mid mdl datas) =
     [message_start mid mdl]
     @ (if text_fragments (received parse datas) = [] then []
        else [content_block_start 0 text_block])
     @ map (\<lambda>t. content_block_delta 0 (text_delta t)) (text_fragments (received parse datas))"
  by (simp add: data_phase_chunks on_chunks_written session_start_def)

lemma start_tools:
  "toolCalls (foldl (handle_tool_call_delta clock) (session_start mid mdl) ds) = accumulators clock ds"
  unfolding accumulators_def
  using deltas_local [of "session_start mid mdl" "session_start [] []" clock ds]
  by (simp add: session_start_def)

lemma stream_closed_form:
  "stream parse clock mid mdl datas =
     [message_start mid mdl]
     @ (if text_fragments (received parse datas) = [] then []
        else content_block_start 0 text_block
             # map (\<lambda>t. content_block_delta 0 (text_delta t)) (text_fragments (received parse datas))
             @ [content_block_stop 0])
     @ (if tool_deltas (received parse datas) = [] then []
        else tool_events (if text_fragments (received parse datas) = [] then 0 else 1)
               (accumulators clock (tool_deltas (received parse datas))))
     @ (if text_fragments (received parse datas) = [] \<and> tool_deltas (received parse datas) = []
        then [content_block_start 0 text_block, content_block_stop 0] else [])
     @ [message_delta (finishReason (data_phase parse clock mid mdl datas))
          (length (text_fragments (received parse datas))),
        message_stop]"
proof -
  let ?cs = "received parse datas"
  let ?s = "foldl (on_chunk clock) (session_start mid mdl) ?cs"
  have w: "stream parse clock mid mdl datas = written (on_end ?s)"
    by (simp add: stream_def data_phase_chunks on_end_buffer)
  have fr: "finishReason (data_phase parse clock mid mdl datas) = finishReason ?s"
    by (simp add: data_phase_chunks)
  have tc: "toolCalls ?s = accumulators clock (tool_deltas ?cs)"
    using on_chunks_tools [of clock "session_start mid mdl" ?cs] by (simp add: start_tools)
  have s0: "hasStartedTextBlock (session_start mid mdl) = False"
    "currentBlockIndex (session_start mid mdl) = 0"
    "outputTokens (session_start mid mdl) = 0"
    "hasToolCalls (session_start mid mdl) = False"
    "written (session_start mid mdl) = [message_start mid mdl]"
    by (simp_all add: session_start_def)
  show ?thesis
    unfolding w fr on_end_written
    by (simp add: on_chunks_text on_chunks_written tc s0)
qed

lemma framed_text_deltas:
  "framed (Some i) n (map (\<lambda>t. content_block_delta i (text_delta t)) ts @ rest) = framed (Some i) n rest"
  by (induction ts) simp_all

lemma framed_tool_events:
  "framed None n (tool_events n tcs @ rest) = framed None (n + length tcs) rest"
proof (induction tcs arbitrary: n)
  case Nil
  then show ?case by simp
next
  case (Cons p tcs)
  obtain slot tc where p: "p = (slot, tc)" by (cases p)
  show ?case unfolding p using Cons.IH [of "Suc n"] by simp
qed

lemma upt_shift: "[n..<n + Suc k] = n # [Suc n..<Suc n + k]"
  by (subst upt_rec) simp

lemma framed_indices:
  "framed opn n es \<Longrightarrow>
     starts es = [n..<n + length (starts es)]
     \<and> stops es = (case opn of None \<Rightarrow> [] | Some i \<Rightarrow> [i]) @ starts es"
proof (induction es arbitrary: opn n)
  case Nil
  then show ?case by simp
next
  case (Cons e es)
  show ?case
  proof (cases e)
    case (content_block_start i b)
    with Cons.prems have f: "opn = None" "i = n" "framed (Some i) (Suc n) es" by auto
    define k where "k = length (starts es)"
    note ih = Cons.IH [OF f(3)]
    have a: "starts es = [Suc n..<Suc n + k]"
      using ih unfolding k_def by (rule conjunct1)
    have b: "stops es = i # starts es"
      using ih by simp
    have c: "starts (e # es) = n # [Suc n..<Suc n + k]"
      using a content_block_start f(2) by simp
    have d: "length (starts (e # es)) = Suc k"
      unfolding c by simp
    have "starts (e # es) = [n..<n + length (starts (e # es))]"
      unfolding d upt_shift by (rule c)
    moreover have "stops (e # es) = (case opn of None \<Rightarrow> [] | Some i \<Rightarrow> [i]) @ starts (e # es)"
      using b f(1,2) content_block_start by simp
    ultimately show ?thesis by simp
  next
    case (content_block_delta i d)
    with Cons.prems have f: "opn = Some i" "framed opn n es" by auto
    from Cons.IH [OF f(2)] f(1) content_block_delta show ?thesis by simp
  next
    case (content_block_stop i)
    with Cons.prems have f: "opn = Some i" "framed None n es" by auto
    from Cons.IH [OF f(2)] f(1) content_block_stop show ?thesis by simp
  next
    case (message_start a b)
    with Cons.prems have f: "opn = None" "framed opn n es" by auto
    from Cons.IH [OF f(2)] f(1) message_start show ?thesis by simp
  next
    case (message_delta a b)
    with Cons.prems have f: "opn = None" "framed opn n es" by auto
    from Cons.IH [OF f(2)] f(1) message_delta show ?thesis by simp
  next
    case message_stop
    with Cons.prems have f: "opn = None" "framed opn n es" by auto
    from Cons.IH [OF f(2)] f(1) message_stop show ?thesis by simp
  qed
qed

lemma stream_framed: "framed None 0 (stream parse clock mid mdl datas)"
proof -
  show ?thesis
    unfolding stream_closed_form
    using framed_tool_events [of 0 _ "[message_delta _ _, message_stop]"]
      framed_tool_events [of 1 _ "[message_delta _ _, message_stop]"]
    by (simp add: framed_text_deltas)
qed

text \<open>
  Claim C1. For every byte stream the backend sends before it ends, every decoder, clock,
  message id and model name, the events written to the client follow the block grammar
  \<open>framed\<close>: every \<open>content_block_start\<close> carries the next free index, counted from 0, no
  block starts while another is open, every delta and stop carries the index of the open
  block, and no block is left open. Hence there are as many \<open>content_block_start\<close> as
  \<open>content_block_stop\<close> events, and the indices of both are \<open>0, 1, ..., n - 1\<close> in emission
  order, without gap or repeat.
\<close>

theorem stream_blocks_well_framed:
  "framed None 0 (stream parse clock mid mdl datas)
   \<and> length (starts (stream parse clock mid mdl datas)) = length (stops (stream parse clock mid mdl datas))
   \<and> starts (stream parse clock mid mdl datas) = [0..<length (starts (stream parse clock mid mdl datas))]
   \<and> stops (stream parse clock mid mdl datas) = [0..<length (stops (stream parse clock mid mdl datas))]"
proof -
  let ?evs = "stream parse clock mid mdl datas"
  have f: "framed None 0 ?evs" by (rule stream_framed)
  from framed_indices [OF f]
  have "starts ?evs = [0..<length (starts ?evs)]" and "stops ?evs = starts ?evs" by simp_all
  with f show ?thesis by simp
qed

lemma text_fragments_none:
  "(\<forall>c \<in> set cs. \<not> truthy_opt (chunk_content c)) \<Longrightarrow> text_fragments cs = []"
  by (induction cs) simp_all

lemma tool_deltas_none:
  "(\<forall>c \<in> set cs. chunk_tool_calls c = []) \<Longrightarrow> tool_deltas cs = []"
  by (simp add: tool_deltas_def)

text \<open>
  Claim C8. When no chunk received in a session carries text content and none carries a
  tool-call fragment, the relay has written \<open>message_start\<close> and nothing else when the
  backend stream ends, and the whole session reads: \<open>message_start\<close>, the start and the stop
  of one empty text block at index 0, \<open>message_delta\<close> with zero output tokens, and
  \<open>message_stop\<close>, in this order: the pair stands before \<open>message_delta\<close>.
\<close>

theorem empty_session_one_text_block:
  assumes "\<forall>c \<in> set (received parse datas). \<not> truthy_opt (chunk_content c) \<and> chunk_tool_calls c = []"
  shows "written (data_phase parse clock mid mdl datas) = [message_start mid mdl]
         \<and> stream parse clock mid mdl datas =
           [ message_start mid mdl,
             content_block_start 0 text_block,
             content_block_stop 0,
             message_delta (finishReason (data_phase parse clock mid mdl datas)) 0,
             message_stop ]"
proof -
  from assms have "text_fragments (received parse datas) = []"
    and "tool_deltas (received parse datas) = []"
    by (simp_all add: text_fragments_none tool_deltas_none)
  then show ?thesis
    by (simp add: stream_closed_form data_phase_written)
qed

section \<open>Streaming relay: tool-call accumulation\<close>

lemma map_of_map_set: "map_of (map_set k v m) = (map_of m)(k \<mapsto> v)"
  by (induction m) (auto simp: fun_eq_iff)

lemma keys_map_set:
  "map fst (map_set k v m) = (if k \<in> set (map fst m) then map fst m else map fst m @ [k])"
proof (induction m)
  case Nil
  then show ?case by simp
next
  case (Cons p m)
  obtain k' v' where p: "p = (k', v')" by (cases p)
  show ?case
  proof (cases "k' = k")
    case True
    then show ?thesis by (simp add: p)
  next
    case False
    then show ?thesis using Cons.IH by (simp add: p)
  qed
qed

lemma map_set_twice: "map_set k v' (map_set k v m) = map_set k v' m"
  by (induction m) auto

lemma delta_step:
  "toolCalls (handle_tool_call_delta clock s d) =
     (case map_of (toolCalls s) (index d) of
        Some tc \<Rightarrow> map_set (index d) (merge d tc) (toolCalls s)
      | None \<Rightarrow> map_set (index d) (merge d (new_entry clock (clockReads s) d)) (toolCalls s))"
  by (simp add: handle_tool_call_delta_def allocate_def Let_def new_entry_def map_of_map_set
      map_set_twice split: option.splits)

lemma merge_fields:
  "stc_arguments (merge d tc) = stc_arguments tc @ or_else (delta_arguments d) []"
  "stc_id (merge d tc) = (if truthy_opt (st_id d) then the (st_id d) else stc_id tc)"
  by (auto simp: merge_def Let_def or_else_def truthy_opt_def truthy_def split: option.splits)

lemma slots_snoc:
  "slots (ds @ [d]) = (if index d \<in> set (slots ds) then slots ds else slots ds @ [index d])"
  by (simp add: slots_def)

lemma slots_set: "set (slots ds) = index ` set ds"
  by (induction ds rule: rev_induct) (auto simp: slots_snoc, simp add: slots_def)

lemma slots_distinct: "distinct (slots ds)"
  by (induction ds rule: rev_induct) (simp add: slots_def, simp add: slots_snoc)

lemma fragments_snoc:
  "fragments k (ds @ [d]) =
     fragments k ds @ (if index d = k then [or_else (delta_arguments d) []] else [])"
  by (simp add: fragments_def)

lemma accumulators_snoc:
  "accumulators clock (ds @ [d]) =
     (case map_of (accumulators clock ds) (index d) of
        Some tc \<Rightarrow> map_set (index d) (merge d tc) (accumulators clock ds)
      | None \<Rightarrow> map_set (index d)
          (merge d (new_entry clock
             (clockReads (foldl (handle_tool_call_delta clock) (session_start [] []) ds)) d))
          (accumulators clock ds))"
  unfolding accumulators_def by (simp add: delta_step)

lemma accumulators_keys: "map fst (accumulators clock ds) = slots ds"
proof (induction ds rule: rev_induct)
  case Nil
  then show ?case by (simp add: accumulators_def slots_def session_start_def)
next
  case (snoc d ds)
  have "map_of (accumulators clock ds) (index d) = None \<longleftrightarrow> index d \<notin> set (slots ds)"
    using snoc.IH by (metis map_of_eq_None_iff set_map)
  then show ?case
    using snoc.IH
    by (auto simp: accumulators_snoc keys_map_set slots_snoc split: option.splits)
qed

lemma accumulators_arguments:
  "map_of (accumulators clock ds) k = Some tc \<Longrightarrow> stc_arguments tc = concat (fragments k ds)"
proof (induction ds arbitrary: tc rule: rev_induct)
  case Nil
  then show ?case by (simp add: accumulators_def session_start_def)
next
  case (snoc d ds)
  show ?case
  proof (cases "index d = k")
    case False
    with snoc.prems have "map_of (accumulators clock ds) k = Some tc"
      by (auto simp: accumulators_snoc map_of_map_set split: option.splits)
    from snoc.IH [OF this] False show ?thesis by (simp add: fragments_snoc)
  next
    case True
    show ?thesis
    proof (cases "map_of (accumulators clock ds) k")
      case None
      then have "k \<notin> set (map fst (accumulators clock ds))"
        by (simp add: map_of_eq_None_iff)
      then have "k \<notin> index ` set ds"
        by (simp add: accumulators_keys slots_set)
      then have "fragments k ds = []"
        by (auto simp: fragments_def filter_empty_conv)
      with snoc.prems True None show ?thesis
        by (auto simp: accumulators_snoc map_of_map_set merge_fields new_entry_def fragments_snoc)
    next
      case (Some tc0)
      from snoc.IH [OF Some] snoc.prems True Some show ?thesis
        by (auto simp: accumulators_snoc map_of_map_set merge_fields fragments_snoc)
    qed
  qed
qed

lemma accumulators_generated_id:
  "map_of (accumulators clock ds) k = Some tc \<Longrightarrow>
   (\<forall>d \<in> set ds. index d = k \<longrightarrow> \<not> truthy_opt (st_id d)) \<Longrightarrow>
   \<exists>r. stc_id tc = generated_id (clock r) k"
proof (induction ds arbitrary: tc rule: rev_induct)
  case Nil
  then show ?case by (simp add: accumulators_def session_start_def)
next
  case (snoc d ds)
  show ?case
  proof (cases "index d = k")
    case False
    with snoc.prems(1) have "map_of (accumulators clock ds) k = Some tc"
      by (auto simp: accumulators_snoc map_of_map_set split: option.splits)
    from snoc.IH [OF this] snoc.prems(2) show ?thesis by simp
  next
    case True
    with snoc.prems(2) have nid: "\<not> truthy_opt (st_id d)" by simp
    show ?thesis
    proof (cases "map_of (accumulators clock ds) k")
      case None
      with snoc.prems(1) True nid show ?thesis
        by (auto simp: accumulators_snoc map_of_map_set merge_fields new_entry_def)
    next
      case (Some tc0)
      from snoc.prems(2) have "\<forall>d \<in> set ds. index d = k \<longrightarrow> \<not> truthy_opt (st_id d)" by simp
      from snoc.IH [OF Some this] snoc.prems(1) True Some nid show ?thesis
        by (auto simp: accumulators_snoc map_of_map_set merge_fields)
    qed
  qed
qed

lemma tool_events_below:
  "i < j \<Longrightarrow> filter (\<lambda>e. event_index e = Some i) (tool_events j m) = []"
proof (induction m arbitrary: j)
  case Nil
  then show ?case by simp
next
  case (Cons p m)
  obtain slot tc where p: "p = (slot, tc)" by (cases p)
  from Cons.prems have "i < Suc j" by simp
  from Cons.IH [OF this] Cons.prems show ?case by (simp add: p)
qed

lemma tool_events_at:
  "map_of m k = Some tc \<Longrightarrow>
   filter (\<lambda>e. event_index e = Some (j + length (takeWhile (\<lambda>x. x \<noteq> k) (map fst m))))
     (tool_events j m) =
   [content_block_start (j + length (takeWhile (\<lambda>x. x \<noteq> k) (map fst m)))
      (tool_use_block (stc_id tc) (stc_name tc))]
   @ (if stc_arguments tc = [] then []
      else [content_block_delta (j + length (takeWhile (\<lambda>x. x \<noteq> k) (map fst m)))
              (input_json_delta (stc_arguments tc))])
   @ [content_block_stop (j + length (takeWhile (\<lambda>x. x \<noteq> k) (map fst m)))]"
proof (induction m arbitrary: j)
  case Nil
  then show ?case by simp
next
  case (Cons p m)
  obtain k' tc' where p: "p = (k', tc')" by (cases p)
  show ?case
  proof (cases "k' = k")
    case True
    with Cons.prems p have "tc' = tc" by simp
    with True show ?thesis
      using tool_events_below [of j "Suc j" m] by (simp add: p)
  next
    case False
    with Cons.prems p have "map_of m k = Some tc" by simp
    from Cons.IH [OF this, of "Suc j"] False show ?thesis by (simp add: p)
  qed
qed

text \<open>
  Claim C2, as amended. Let \<open>ds\<close> be the tool-call fragments received in a session, \<open>k\<close> a
  slot that some fragment addresses, and \<open>j\<close> the block index of the slot: its position among
  the slots in first-seen order, after the text block if there is one. The events the relay
  writes for index \<open>j\<close> are the start of a tool-use block, then, when the concatenation of the
  slot's argument fragments in arrival order is non-empty, exactly one \<open>input_json_delta\<close>
  carrying that concatenation, and none when it is empty, then the stop. When no fragment
  of the slot carries an id, the block's id is the generated \<open>toolu_<clock>_<slot>\<close>. Nothing
  written before the backend stream ends belongs to a tool-use block.
\<close>

theorem tool_call_fragments_amended:
  assumes "ds = tool_deltas (received parse datas)"
    and "k \<in> set (slots ds)"
    and "j = (if text_fragments (received parse datas) = [] then 0 else 1)
             + length (takeWhile (\<lambda>x. x \<noteq> k) (slots ds))"
  shows "(\<exists>tid name.
            filter (\<lambda>e. event_index e = Some j) (stream parse clock mid mdl datas) =
              [content_block_start j (tool_use_block tid name)]
              @ (if concat (fragments k ds) = [] then []
                 else [content_block_delta j (input_json_delta (concat (fragments k ds)))])
              @ [content_block_stop j]
            \<and> ((\<forall>d \<in> set ds. index d = k \<longrightarrow> \<not> truthy_opt (st_id d))
                 \<longrightarrow> (\<exists>r. tid = generated_id (clock r) k)))
         \<and> (\<forall>e \<in> set (written (data_phase parse clock mid mdl datas)). \<not> tool_use_event e)"
proof
  let ?m = "accumulators clock ds"
  let ?base = "if text_fragments (received parse datas) = [] then 0 else 1 :: nat"
  from assms(2) have "k \<in> set (map fst ?m)" by (simp add: accumulators_keys)
  then obtain tc where tc: "map_of ?m k = Some tc"
    by (metis domD dom_map_of_conv_image_fst set_map)
  from assms(2) have nonempty: "ds \<noteq> []" by (auto simp: slots_def)
  have j: "j = ?base + length (takeWhile (\<lambda>x. x \<noteq> k) (map fst ?m))"
    using assms(3) by (simp add: accumulators_keys)
  have at: "filter (\<lambda>e. event_index e = Some j) (tool_events ?base ?m) =
      [content_block_start j (tool_use_block (stc_id tc) (stc_name tc))]
      @ (if stc_arguments tc = [] then []
         else [content_block_delta j (input_json_delta (stc_arguments tc))])
      @ [content_block_stop j]"
    unfolding j by (rule tool_events_at [OF tc])
  have pos: "text_fragments (received parse datas) \<noteq> [] \<Longrightarrow> 0 < j"
    using assms(3) by simp
  have "filter (\<lambda>e. event_index e = Some j) (stream parse clock mid mdl datas) =
      filter (\<lambda>e. event_index e = Some j) (tool_events ?base ?m)"
    unfolding stream_closed_form
    using nonempty pos assms(1) by (auto simp: filter_empty_conv)
  with at have "filter (\<lambda>e. event_index e = Some j) (stream parse clock mid mdl datas) =
      [content_block_start j (tool_use_block (stc_id tc) (stc_name tc))]
      @ (if concat (fragments k ds) = [] then []
         else [content_block_delta j (input_json_delta (concat (fragments k ds)))])
      @ [content_block_stop j]"
    by (simp add: accumulators_arguments [OF tc])
  moreover have "(\<forall>d \<in> set ds. index d = k \<longrightarrow> \<not> truthy_opt (st_id d))
      \<longrightarrow> (\<exists>r. stc_id tc = generated_id (clock r) k)"
    using accumulators_generated_id [OF tc] by blast
  ultimately show "\<exists>tid name.
            filter (\<lambda>e. event_index e = Some j) (stream parse clock mid mdl datas) =
              [content_block_start j (tool_use_block tid name)]
              @ (if concat (fragments k ds) = [] then []
                 else [content_block_delta j (input_json_delta (concat (fragments k ds)))])
              @ [content_block_stop j]
            \<and> ((\<forall>d \<in> set ds. index d = k \<longrightarrow> \<not> truthy_opt (st_id d))
                 \<longrightarrow> (\<exists>r. tid = generated_id (clock r) k))"
    by blast
next
  show "\<forall>e \<in> set (written (data_phase parse clock mid mdl datas)). \<not> tool_use_event e"
    by (auto simp: data_phase_written)
qed

section \<open>Streaming relay: three sessions\<close>

text \<open>Splitting a buffer whose lines are known.\<close>

lemma split_lines_line:
  "newline \<notin> set l \<Longrightarrow> split_lines (l @ newline # rest) = l # split_lines rest"
  by (induction l) (auto split: list.splits)

lemma split_lines_last: "newline \<notin> set l \<Longrightarrow> split_lines l = [l]"
  by (induction l) (auto split: list.splits)

lemma payload_one_line: "newline \<notin> set d \<Longrightarrow> newline \<notin> set fin \<Longrightarrow> newline \<notin> set (payload d fin)"
  by (simp add: payload_def)

lemmas payload_defs = role_payload_def stop_payload_def tool_calls_payload_def weather1_payload_def
  weather2_payload_def weather3_payload_def time_payload_def empty1_payload_def empty2_payload_def

lemma payloads_one_line:
  "newline \<notin> set role_payload" "newline \<notin> set stop_payload" "newline \<notin> set tool_calls_payload"
  "newline \<notin> set weather1_payload" "newline \<notin> set weather2_payload"
  "newline \<notin> set weather3_payload" "newline \<notin> set time_payload"
  "newline \<notin> set empty1_payload" "newline \<notin> set empty2_payload"
  unfolding payload_defs by (simp_all add: payload_one_line)

lemma silent_lines:
  "complete_lines [] silent_body =
     [''data: '' @ role_payload, [], ''data: '' @ stop_payload, [], ''data: [DONE]'', []]"
  using split_lines_line [of "''data: '' @ role_payload"] split_lines_line [of "''data: '' @ stop_payload"]
    split_lines_line [of "[]"] split_lines_line [of "''data: [DONE]''"] split_lines_last [of "[]"]
    split_lines_last [of "''data: ''"]
  by (simp add: silent_body_def sse_def payloads_one_line)

lemma decode_other:
  "decode_line stream_decode [] = None" "decode_line stream_decode ''data: [DONE]'' = None"
  by (simp_all add: decode_line_def startsWith_def)

lemma decode_payloads:
  "decode_line stream_decode (''data: '' @ role_payload) =
     Some (example_chunk \<lparr> delta_role = Some ''assistant'', delta_content = Some [],
                                  delta_tool_calls = None \<rparr> None)"
  "decode_line stream_decode (''data: '' @ stop_payload) =
     Some (example_chunk \<lparr> delta_role = None, delta_content = None,
                                  delta_tool_calls = None \<rparr> (Some ''stop''))"
  "decode_line stream_decode (''data: '' @ tool_calls_payload) =
     Some (example_chunk \<lparr> delta_role = None, delta_content = None,
                                  delta_tool_calls = None \<rparr> (Some ''tool_calls''))"
  "decode_line stream_decode (''data: '' @ weather1_payload) =
     Some (example_chunk (tool_fragment 0 (Some ''call_1'') (Some ''get_weather'') ''{\"ci'') None)"
  "decode_line stream_decode (''data: '' @ weather2_payload) =
     Some (example_chunk (tool_fragment 0 None None ''ty\":\"Par'') None)"
  "decode_line stream_decode (''data: '' @ weather3_payload) =
     Some (example_chunk (tool_fragment 0 None None ''is\"}'') None)"
  "decode_line stream_decode (''data: '' @ time_payload) =
     Some (example_chunk (tool_fragment 1 None (Some ''get_time'') ''{}'') None)"
  "decode_line stream_decode (''data: '' @ empty1_payload) =
     Some (example_chunk (tool_fragment 0 (Some ''call_1'') (Some ''get_time'') []) None)"
  "decode_line stream_decode (''data: '' @ empty2_payload) =
     Some (example_chunk (tool_fragment 0 None None []) None)"
  by (simp_all add: decode_line_def startsWith_def stream_decode_def payload_defs payload_def)

lemma silent_received:
  "received stream_decode silent_body =
     [ example_chunk \<lparr> delta_role = Some ''assistant'', delta_content = Some [],
                                  delta_tool_calls = None \<rparr> None,
       example_chunk \<lparr> delta_role = None, delta_content = None,
                                  delta_tool_calls = None \<rparr> (Some ''stop'') ]"
  unfolding received_def silent_lines
  by (simp add: decode_payloads decode_other del: append.simps)

lemma weather_lines:
  "complete_lines [] weather_body =
     [''data: '' @ weather1_payload, [], ''data: '' @ weather2_payload, [],
      ''data: '' @ time_payload, [], ''data: '' @ weather3_payload, [],
      ''data: '' @ tool_calls_payload, [], ''data: [DONE]'', []]"
  using split_lines_line [of "''data: '' @ weather1_payload"]
    split_lines_line [of "''data: '' @ weather2_payload"]
    split_lines_line [of "''data: '' @ time_payload"]
    split_lines_line [of "''data: '' @ weather3_payload"]
    split_lines_line [of "''data: '' @ tool_calls_payload"]
    split_lines_line [of "[]"] split_lines_line [of "''data: [DONE]''"] split_lines_last [of "[]"]
    split_lines_last [of "''data: ''"]
  by (simp add: weather_body_def sse_def payloads_one_line)

lemma no_arguments_lines:
  "complete_lines [] no_arguments_body =
     [''data: '' @ empty1_payload, [], ''data: '' @ empty2_payload, [],
      ''data: '' @ tool_calls_payload, [], ''data: [DONE]'', []]"
  using split_lines_line [of "''data: '' @ empty1_payload"]
    split_lines_line [of "''data: '' @ empty2_payload"]
    split_lines_line [of "''data: '' @ tool_calls_payload"]
    split_lines_line [of "[]"] split_lines_line [of "''data: [DONE]''"] split_lines_last [of "[]"]
  by (simp add: no_arguments_body_def sse_def payloads_one_line)

lemma weather_received:
  "received stream_decode weather_body =
     [ example_chunk (tool_fragment 0 (Some ''call_1'') (Some ''get_weather'') ''{\"ci'') None,
       example_chunk (tool_fragment 0 None None ''ty\":\"Par'') None,
       example_chunk (tool_fragment 1 None (Some ''get_time'') ''{}'') None,
       example_chunk (tool_fragment 0 None None ''is\"}'') None,
       example_chunk \<lparr> delta_role = None, delta_content = None,
                                  delta_tool_calls = None \<rparr> (Some ''tool_calls'') ]"
  unfolding received_def weather_lines
  by (simp add: decode_payloads decode_other del: append.simps)

lemma no_arguments_received:
  "received stream_decode no_arguments_body =
     [ example_chunk (tool_fragment 0 (Some ''call_1'') (Some ''get_time'') []) None,
       example_chunk (tool_fragment 0 None None []) None,
       example_chunk \<lparr> delta_role = None, delta_content = None,
                                  delta_tool_calls = None \<rparr> (Some ''tool_calls'') ]"
  unfolding received_def no_arguments_lines
  by (simp add: decode_payloads decode_other del: append.simps)

lemmas chunk_eval = example_chunk_def tool_fragment_def chunk_content_def chunk_tool_calls_def
  chunk_finish_reason_def first_choice_def truthy_opt_def truthy_def or_else_def
  delta_name_def delta_arguments_def

lemmas relay_eval = on_chunk_def handle_text_def handle_tool_calls_def handle_tool_call_delta_def
  allocate_def merge_def handle_finish_def handle_usage_def mapFinishReason_def session_start_def
  Let_def

lemma generated_example: "generated_id (example_clock 0) 1 = ''toolu_1730000000000_1''"
  by (simp add: generated_id_def example_clock_def show_int_def show_nat.simps)

lemma weather_deltas:
  "tool_deltas (received stream_decode weather_body) =
     [ \<lparr> index = 0, st_id = Some ''call_1'', st_type = None,
         st_function = Some \<lparr> fn_name = Some ''get_weather'', fn_arguments = Some ''{\"ci'' \<rparr> \<rparr>,
       \<lparr> index = 0, st_id = None, st_type = None,
         st_function = Some \<lparr> fn_name = None, fn_arguments = Some ''ty\":\"Par'' \<rparr> \<rparr>,
       \<lparr> index = 1, st_id = None, st_type = None,
         st_function = Some \<lparr> fn_name = Some ''get_time'', fn_arguments = Some ''{}'' \<rparr> \<rparr>,
       \<lparr> index = 0, st_id = None, st_type = None,
         st_function = Some \<lparr> fn_name = None, fn_arguments = Some ''is\"}'' \<rparr> \<rparr> ]"
  by (simp add: weather_received tool_deltas_def chunk_eval)

lemma weather_texts: "text_fragments (received stream_decode weather_body) = []"
  by (simp add: weather_received chunk_eval)

lemma weather_accumulators:
  "accumulators example_clock (tool_deltas (received stream_decode weather_body)) =
     [ (0, \<lparr> stc_id = ''call_1'', stc_name = ''get_weather'', stc_arguments = ''{\"city\":\"Paris\"}'' \<rparr>),
       (1, \<lparr> stc_id = ''toolu_1730000000000_1'', stc_name = ''get_time'', stc_arguments = ''{}'' \<rparr>) ]"
  unfolding weather_deltas accumulators_def
  by (simp add: relay_eval chunk_eval generated_example)

lemma weather_finish:
  "finishReason (data_phase stream_decode example_clock ''msg_1'' ''claude-3-opus'' weather_body) = ''tool_use''"
  unfolding data_phase_chunks weather_received
  by (simp add: relay_eval chunk_eval)

lemma weather_stream:
  "stream stream_decode example_clock ''msg_1'' ''claude-3-opus'' weather_body =
     [ message_start ''msg_1'' ''claude-3-opus'',
       content_block_start 0 (tool_use_block ''call_1'' ''get_weather''),
       content_block_delta 0 (input_json_delta ''{\"city\":\"Paris\"}''),
       content_block_stop 0,
       content_block_start 1 (tool_use_block ''toolu_1730000000000_1'' ''get_time''),
       content_block_delta 1 (input_json_delta ''{}''),
       content_block_stop 1,
       message_delta ''tool_use'' 0,
       message_stop ]"
  unfolding stream_closed_form weather_finish weather_accumulators weather_texts
  by (simp add: weather_deltas)

text \<open>
  A session with the arguments of one tool call split across three fragments at slot 0,
  and a fragment without id at slot 1 in between: block 0 carries the whole argument text
  once, block 1 the generated id.
\<close>

theorem tool_call_fragments_amended_witness:
  "filter (\<lambda>e. event_index e = Some 0)
     (stream stream_decode example_clock ''msg_1'' ''claude-3-opus'' weather_body) =
     [ content_block_start 0 (tool_use_block ''call_1'' ''get_weather''),
       content_block_delta 0 (input_json_delta ''{\"city\":\"Paris\"}''),
       content_block_stop 0 ]
   \<and> filter (\<lambda>e. event_index e = Some 1)
     (stream stream_decode example_clock ''msg_1'' ''claude-3-opus'' weather_body) =
     [ content_block_start 1 (tool_use_block ''toolu_1730000000000_1'' ''get_time''),
       content_block_delta 1 (input_json_delta ''{}''),
       content_block_stop 1 ]"
proof -
  let ?ds = "tool_deltas (received stream_decode weather_body)"
  have slots: "slots ?ds = [0, 1]"
    by (simp add: weather_deltas slots_def)
  have k0: "0 \<in> set (slots ?ds)" and k1: "1 \<in> set (slots ?ds)"
    by (simp_all add: slots)
  have j0: "0 = (if text_fragments (received stream_decode weather_body) = [] then 0 else 1)
      + length (takeWhile (\<lambda>x. x \<noteq> 0) (slots ?ds))"
    by (simp add: slots weather_texts)
  have j1: "1 = (if text_fragments (received stream_decode weather_body) = [] then 0 else 1)
      + length (takeWhile (\<lambda>x. x \<noteq> 1) (slots ?ds))"
    by (simp add: slots weather_texts)
  from tool_call_fragments_amended [OF refl k0 j0, of example_clock "''msg_1''" "''claude-3-opus''"]
    tool_call_fragments_amended [OF refl k1 j1, of example_clock "''msg_1''" "''claude-3-opus''"]
  show ?thesis
    by (simp add: weather_stream generated_example)
qed

lemma no_arguments_deltas:
  "tool_deltas (received stream_decode no_arguments_body) =
     [ \<lparr> index = 0, st_id = Some ''call_1'', st_type = None,
         st_function = Some \<lparr> fn_name = Some ''get_time'', fn_arguments = Some [] \<rparr> \<rparr>,
       \<lparr> index = 0, st_id = None, st_type = None,
         st_function = Some \<lparr> fn_name = None, fn_arguments = Some [] \<rparr> \<rparr> ]"
  by (simp add: no_arguments_received tool_deltas_def chunk_eval)

lemma no_arguments_texts: "text_fragments (received stream_decode no_arguments_body) = []"
  by (simp add: no_arguments_received chunk_eval)

lemma no_arguments_accumulators:
  "accumulators example_clock (tool_deltas (received stream_decode no_arguments_body)) =
     [ (0, \<lparr> stc_id = ''call_1'', stc_name = ''get_time'', stc_arguments = [] \<rparr>) ]"
  unfolding no_arguments_deltas accumulators_def
  by (simp add: relay_eval chunk_eval)

lemma no_arguments_finish:
  "finishReason (data_phase stream_decode example_clock ''msg_1'' ''claude-3-opus'' no_arguments_body) = ''tool_use''"
  unfolding data_phase_chunks no_arguments_received
  by (simp add: relay_eval chunk_eval)

text \<open>
  Claim C2 as stated fails: a tool call whose argument string arrives in two fragments, both
  empty, gets a tool-use block with no \<open>input_json_delta\<close> at all (the relay sends the delta
  only under \<open>if (tc.arguments)\<close>).
\<close>

theorem no_arguments_counterexample:
  "fragments 0 (tool_deltas (received stream_decode no_arguments_body)) = [[], []]
   \<and> stream stream_decode example_clock ''msg_1'' ''claude-3-opus'' no_arguments_body =
     [ message_start ''msg_1'' ''claude-3-opus'',
       content_block_start 0 (tool_use_block ''call_1'' ''get_time''),
       content_block_stop 0,
       message_delta ''tool_use'' 0,
       message_stop ]"
  unfolding stream_closed_form no_arguments_finish no_arguments_accumulators no_arguments_texts
  by (simp add: no_arguments_deltas fragments_def chunk_eval)

lemma silent_finish:
  "finishReason (data_phase stream_decode example_clock ''msg_1'' ''claude-3-opus'' silent_body) = ''end_turn''"
  unfolding data_phase_chunks silent_received
  by (simp add: relay_eval chunk_eval)

text \<open>A session of a role chunk with empty content, a finish chunk and the sentinel.\<close>

theorem empty_session_one_text_block_witness:
  "written (data_phase stream_decode example_clock ''msg_1'' ''claude-3-opus'' silent_body) =
     [ message_start ''msg_1'' ''claude-3-opus'' ]
   \<and> stream stream_decode example_clock ''msg_1'' ''claude-3-opus'' silent_body =
     [ message_start ''msg_1'' ''claude-3-opus'',
       content_block_start 0 text_block,
       content_block_stop 0,
       message_delta ''end_turn'' 0,
       message_stop ]"
proof -
  have quiet: "\<forall>c \<in> set (received stream_decode silent_body).
      \<not> truthy_opt (chunk_content c) \<and> chunk_tool_calls c = []"
    by (simp add: silent_received chunk_eval)
  from empty_session_one_text_block [OF quiet, of example_clock "''msg_1''" "''claude-3-opus''"]
  show ?thesis by (simp add: silent_finish)
qed

end
